theory Spec2Isabelle
  imports Main "HOL-Library.Word"
begin

section \<open>Values shared by the client store and the token store\<close>

text \<open>
  The package \<open>pgstore\<close> keeps OAuth2 clients and tokens in PostgreSQL through a pgx
  connection pool. The model has three layers: the values the Go code handles (errors, log
  levels, times, JSON documents), the database behind the pool (tables of rows, the six
  statement shapes the package sends), and the Go functions themselves, which thread a
  \<open>world\<close> (database, statements sent, log calls made).
\<close>

subsection \<open>Errors\<close>

text \<open>
  \<open>ErrNoTable\<close>, \<open>ErrNoConnPool\<close> and \<open>ErrNoLogger\<close> are the package's own errors;
  \<open>ErrNoRows\<close> is \<open>pgx.ErrNoRows\<close>. The others are the failures of the collaborators:
  the database rejecting a statement, \<open>Row.Scan\<close> failing to convert a column,
  \<open>json.Unmarshal\<close> rejecting a document for its destination, \<open>json.Marshal\<close>
  failing in the \<open>MarshalJSON\<close> of a value, and \<open>PoolError\<close> for any
  other failure of the pool (connection loss, timeout, cancelled context). \<open>Wrapped\<close> is an
  error that wraps another one (\<open>%w\<close>), which \<open>errors.Is\<close> looks through.
\<close>

datatype error =
    ErrNoTable
  | ErrNoConnPool
  | ErrNoLogger
  | ErrNoRows
  | SyntaxError string
  | UndefinedTable string
  | UndefinedColumn string
  | NotNullViolation string
  | DatatypeMismatch string
  | UniqueViolation string
  | SequenceLimit string
  | ScanError string
  | UnmarshalTypeError string
  | MarshalError string
  | PoolError string
  | Wrapped string error

text \<open>\<open>err.Error()\<close>: the message of an error.\<close>

fun Error :: "error \<Rightarrow> string" where
  "Error ErrNoTable = ''no table provided''"
| "Error ErrNoConnPool = ''no connection pool provided''"
| "Error ErrNoLogger = ''no logger provided''"
| "Error ErrNoRows = ''no rows in result set''"
| "Error (SyntaxError m) = ''syntax error at or near '' @ m"
| "Error (UndefinedTable m) = ''relation does not exist: '' @ m"
| "Error (UndefinedColumn m) = ''column does not exist: '' @ m"
| "Error (NotNullViolation m) = ''null value violates not-null constraint: '' @ m"
| "Error (DatatypeMismatch m) = ''value does not fit column: '' @ m"
| "Error (UniqueViolation m) = ''duplicate key value violates unique constraint: '' @ m"
| "Error (SequenceLimit m) = ''nextval: reached maximum value of sequence: '' @ m"
| "Error (ScanError m) = ''cannot scan into destination: '' @ m"
| "Error (UnmarshalTypeError m) = ''json: cannot unmarshal into Go value of type '' @ m"
| "Error (MarshalError m) = ''json: error calling MarshalJSON for type '' @ m"
| "Error (PoolError m) = m"
| "Error (Wrapped m e) = m @ '': '' @ Error e"

text \<open>
  \<open>errors.Is(err, target)\<close> for a non-nil target: a nil error is no target, otherwise the
  chain of wrapped errors is searched.
\<close>

fun chain_has :: "error \<Rightarrow> error \<Rightarrow> bool" where
  "chain_has (Wrapped m e) target = (Wrapped m e = target \<or> chain_has e target)"
| "chain_has e target = (e = target)"

definition errors_Is :: "error option \<Rightarrow> error \<Rightarrow> bool" where
  "errors_Is err target = (case err of None \<Rightarrow> False | Some e \<Rightarrow> chain_has e target)"

text \<open>
  A Go call returns, panics, or never returns. \<open>err.Error()\<close> on a nil error is a nil
  pointer dereference: the call panics. A call that waits for something that does not come,
  under a context that never ends, blocks for ever.
\<close>

datatype 'a outcome = Returns 'a | Panics | Blocks

subsection \<open>Logging\<close>

datatype LogLevel = LogLevelDebug | LogLevelInfo | LogLevelWarn | LogLevelError

text \<open>A \<open>Logger\<close> is an interface value; the option constructors receive it or nil.\<close>

datatype Logger = NoopLogger | CustomLogger nat

subsection \<open>Times and durations\<close>

text \<open>
  A \<open>time.Time\<close> is an instant, counted in nanoseconds from the Unix epoch; a
  \<open>time.Duration\<close> is an \<open>int64\<close> of nanoseconds. \<open>t.Add(d)\<close> moves the instant by the
  signed duration.
\<close>

type_synonym time = int
type_synonym duration = "64 word"

definition Add :: "time \<Rightarrow> duration \<Rightarrow> time" where
  "Add t d = t + sint d"

text \<open>The zero \<open>time.Time\<close> (January 1, year 1, 00:00 UTC).\<close>

definition zero_time :: time where
  "zero_time = - 62135596800 * 1000000000"

subsection \<open>JSON documents\<close>

text \<open>
  The \<open>data\<close> column is \<open>JSONB\<close>: it holds a JSON document, kept here as its tree.
  \<open>JTime\<close> is the JSON string \<open>encoding/json\<close> writes for a \<open>time.Time\<close> (RFC 3339
  text), kept as the instant it denotes.
\<close>

datatype jvalue =
    JNull
  | JBool bool
  | JNumber int
  | JString string
  | JTime time
  | JObject "(string \<times> jvalue) list"

text \<open>Sequencing of fallible steps: the first error ends the sequence.\<close>

definition and_then :: "error + 'a \<Rightarrow> ('a \<Rightarrow> error + 'b) \<Rightarrow> error + 'b" where
  "and_then m f = (case m of Inl e \<Rightarrow> Inl e | Inr x \<Rightarrow> f x)"

text \<open>
  \<open>encoding/json\<close> matches the names of an object's members with the names of a struct's
  fields without regard to case: the letters \<open>a\<close> to \<open>z\<close> count as their capitals, and so
  do the long s (U+017F, bytes C5 BF) for \<open>S\<close> and the Kelvin sign (U+212A, bytes E2 84 AA)
  for \<open>K\<close>. \<open>fold_name\<close> is a name with these replaced; two names match when their folded
  names are equal. (The struct's field names here are ASCII letters.)
\<close>

definition upper :: "char \<Rightarrow> char" where
  "upper c =
     (case map_of (zip ''abcdefghijklmnopqrstuvwxyz'' ''ABCDEFGHIJKLMNOPQRSTUVWXYZ'') c of
        Some u \<Rightarrow> u
      | None \<Rightarrow> c)"

fun fold_name :: "string \<Rightarrow> string" where
  "fold_name [] = []"
| "fold_name (c # cs) =
     (if c = CHR 0xC5 \<and> take 1 cs = [CHR 0xBF] then CHR ''S'' # fold_name (drop 1 cs)
      else if c = CHR 0xE2 \<and> take 2 cs = [CHR 0x84, CHR 0xAA]
      then CHR ''K'' # fold_name (drop 2 cs)
      else upper c # fold_name cs)"

text \<open>The values of the members that match a field, in the order of the document.\<close>

definition members :: "(string \<times> jvalue) list \<Rightarrow> string \<Rightarrow> jvalue list" where
  "members kvs name = map snd (filter (\<lambda>kv. fold_name (fst kv) = fold_name name) kvs)"

text \<open>
  Decoding into one struct field: the matching members are read in order, each assigning
  to the field. \<open>null\<close> assigns nothing, a value of the field's type replaces what the
  field holds, a value of another JSON type is an \<open>UnmarshalTypeError\<close>. With no matching
  member the field keeps the value it had, the zero value. (The first error is reported
  by field here; \<open>encoding/json\<close> reports the first in the order of the document, and
  for a \<open>time.Time\<close> the error of the \<open>time\<close> package. The text of a time is kept
  apart from other strings, so a string field does not take it.)
\<close>

fun assign :: "(jvalue \<Rightarrow> 'a option) \<Rightarrow> string \<Rightarrow> 'a \<Rightarrow> jvalue list \<Rightarrow> error + 'a" where
  "assign rd name cur [] = Inr cur"
| "assign rd name cur (JNull # vs) = assign rd name cur vs"
| "assign rd name cur (v # vs) =
     (case rd v of
        Some x \<Rightarrow> assign rd name x vs
      | None \<Rightarrow> Inl (UnmarshalTypeError name))"

text \<open>
  What a field of each type takes from a value: a string field a string, a \<open>time.Time\<close>
  the text of a time, a \<open>time.Duration\<close> a whole number that fits an \<open>int64\<close>.
\<close>

definition read_string :: "jvalue \<Rightarrow> string option" where
  "read_string v = (case v of JString s \<Rightarrow> Some s | _ \<Rightarrow> None)"

definition read_time :: "jvalue \<Rightarrow> time option" where
  "read_time v = (case v of JTime t \<Rightarrow> Some t | _ \<Rightarrow> None)"

definition read_duration :: "jvalue \<Rightarrow> duration option" where
  "read_duration v =
     (case v of
        JNumber n \<Rightarrow> (if - (2 ^ 63) \<le> n \<and> n < 2 ^ 63 then Some (word_of_int n) else None)
      | _ \<Rightarrow> None)"

definition string_field :: "(string \<times> jvalue) list \<Rightarrow> string \<Rightarrow> error + string" where
  "string_field kvs name = assign read_string name [] (members kvs name)"

definition time_field :: "(string \<times> jvalue) list \<Rightarrow> string \<Rightarrow> error + time" where
  "time_field kvs name = assign read_time name zero_time (members kvs name)"

definition duration_field :: "(string \<times> jvalue) list \<Rightarrow> string \<Rightarrow> error + duration" where
  "duration_field kvs name = assign read_duration name 0 (members kvs name)"

text \<open>
  What \<open>encoding/json\<close> and the \<open>time\<close> package make of the values of a struct on the way
  into a document is taken as a parameter of the model, \<open>json_lib\<close>.
  \<^item> \<open>json_String s\<close> is the string the document holds for the Go string \<open>s\<close>. A Go string
    is any bytes; in the document every byte that is not part of valid UTF-8 has become
    U+FFFD.
  \<^item> \<open>json_Time t\<close> is what \<open>Time.MarshalJSON\<close> makes of a time at the instant \<open>t\<close>: its
    error (the year is outside 0 to 9999), or the instant that the RFC 3339 text it writes
    denotes. The text carries the zone offset in hours and minutes only, so for a time in a
    zone whose offset has seconds it denotes another instant. The model keeps a time as its
    instant alone; what becomes of it depends on its zone too, which is why this is a
    parameter and not a function of the model.
\<close>

record json_lib =
  json_String :: "string \<Rightarrow> string"
  json_Time :: "time \<Rightarrow> error + time"

subsection \<open>The framework's records\<close>

text \<open>
  \<open>oauth2.TokenInfo\<close> and \<open>oauth2.ClientInfo\<close> are interfaces of the go-oauth2
  framework; \<open>models.Token\<close> and \<open>models.Client\<close> are its structs behind them. The
  fields carry the names of the accessors the store calls (\<open>info.GetCode()\<close>); the JSON
  keys are the struct's field names.
\<close>

record Token =
  GetClientID :: string
  GetUserID :: string
  GetRedirectURI :: string
  GetScope :: string
  GetCode :: string
  GetCodeChallenge :: string
  GetCodeChallengeMethod :: string
  GetCodeCreateAt :: time
  GetCodeExpiresIn :: duration
  GetAccess :: string
  GetAccessCreateAt :: time
  GetAccessExpiresIn :: duration
  GetRefresh :: string
  GetRefreshCreateAt :: time
  GetRefreshExpiresIn :: duration

text \<open>\<open>GetUserID'\<close> is \<open>GetUserID\<close> of a client (the unprimed name is the token's).\<close>

record Client =
  GetID :: string
  GetSecret :: string
  GetDomain :: string
  IsPublic :: bool
  GetUserID' :: string

text \<open>
  \<open>json.Marshal\<close> of a \<open>*models.Token\<close> and of a \<open>*models.Client\<close>: an object with
  one member per field, named as the field. It fails when \<open>MarshalJSON\<close> of one of the
  times fails; a client has no times.
\<close>

definition json_Marshal_Token :: "json_lib \<Rightarrow> Token \<Rightarrow> error + jvalue" where
  "json_Marshal_Token lib info =
     and_then (json_Time lib (GetCodeCreateAt info)) (\<lambda>code_create_at.
     and_then (json_Time lib (GetAccessCreateAt info)) (\<lambda>access_create_at.
     and_then (json_Time lib (GetRefreshCreateAt info)) (\<lambda>refresh_create_at.
       Inr (JObject
         [(''ClientID'', JString (json_String lib (GetClientID info))),
          (''UserID'', JString (json_String lib (GetUserID info))),
          (''RedirectURI'', JString (json_String lib (GetRedirectURI info))),
          (''Scope'', JString (json_String lib (GetScope info))),
          (''Code'', JString (json_String lib (GetCode info))),
          (''CodeChallenge'', JString (json_String lib (GetCodeChallenge info))),
          (''CodeChallengeMethod'', JString (json_String lib (GetCodeChallengeMethod info))),
          (''CodeCreateAt'', JTime code_create_at),
          (''CodeExpiresIn'', JNumber (sint (GetCodeExpiresIn info))),
          (''Access'', JString (json_String lib (GetAccess info))),
          (''AccessCreateAt'', JTime access_create_at),
          (''AccessExpiresIn'', JNumber (sint (GetAccessExpiresIn info))),
          (''Refresh'', JString (json_String lib (GetRefresh info))),
          (''RefreshCreateAt'', JTime refresh_create_at),
          (''RefreshExpiresIn'', JNumber (sint (GetRefreshExpiresIn info)))]))))"

definition json_Marshal_Client :: "json_lib \<Rightarrow> Client \<Rightarrow> error + jvalue" where
  "json_Marshal_Client lib info = Inr (JObject
     [(''ID'', JString (json_String lib (GetID info))),
      (''Secret'', JString (json_String lib (GetSecret info))),
      (''Domain'', JString (json_String lib (GetDomain info))),
      (''Public'', JBool (IsPublic info)),
      (''UserID'', JString (json_String lib (GetUserID' info)))])"

text \<open>
  \<open>json.Unmarshal(data, &info)\<close> with \<open>var info models.Token\<close>: the destination is a
  struct. \<open>null\<close> leaves it at its zero value, an object fills the fields, any other
  document is an \<open>UnmarshalTypeError\<close>.
\<close>

definition zero_Token :: Token where
  "zero_Token = \<lparr> GetClientID = [], GetUserID = [], GetRedirectURI = [], GetScope = [],
     GetCode = [], GetCodeChallenge = [], GetCodeChallengeMethod = [],
     GetCodeCreateAt = zero_time, GetCodeExpiresIn = 0,
     GetAccess = [], GetAccessCreateAt = zero_time, GetAccessExpiresIn = 0,
     GetRefresh = [], GetRefreshCreateAt = zero_time, GetRefreshExpiresIn = 0 \<rparr>"

definition Token_of_object :: "(string \<times> jvalue) list \<Rightarrow> error + Token" where
  "Token_of_object kvs =
     and_then (string_field kvs ''ClientID'') (\<lambda>client_id.
     and_then (string_field kvs ''UserID'') (\<lambda>user_id.
     and_then (string_field kvs ''RedirectURI'') (\<lambda>redirect_uri.
     and_then (string_field kvs ''Scope'') (\<lambda>scope.
     and_then (string_field kvs ''Code'') (\<lambda>code.
     and_then (string_field kvs ''CodeChallenge'') (\<lambda>challenge.
     and_then (string_field kvs ''CodeChallengeMethod'') (\<lambda>challenge_method.
     and_then (time_field kvs ''CodeCreateAt'') (\<lambda>code_create_at.
     and_then (duration_field kvs ''CodeExpiresIn'') (\<lambda>code_expires_in.
     and_then (string_field kvs ''Access'') (\<lambda>access.
     and_then (time_field kvs ''AccessCreateAt'') (\<lambda>access_create_at.
     and_then (duration_field kvs ''AccessExpiresIn'') (\<lambda>access_expires_in.
     and_then (string_field kvs ''Refresh'') (\<lambda>refresh.
     and_then (time_field kvs ''RefreshCreateAt'') (\<lambda>refresh_create_at.
     and_then (duration_field kvs ''RefreshExpiresIn'') (\<lambda>refresh_expires_in.
       Inr \<lparr> GetClientID = client_id, GetUserID = user_id, GetRedirectURI = redirect_uri,
             GetScope = scope, GetCode = code, GetCodeChallenge = challenge,
             GetCodeChallengeMethod = challenge_method,
             GetCodeCreateAt = code_create_at, GetCodeExpiresIn = code_expires_in,
             GetAccess = access, GetAccessCreateAt = access_create_at,
             GetAccessExpiresIn = access_expires_in,
             GetRefresh = refresh, GetRefreshCreateAt = refresh_create_at,
             GetRefreshExpiresIn = refresh_expires_in \<rparr>)))))))))))))))"

definition json_Unmarshal_Token :: "jvalue \<Rightarrow> error + Token" where
  "json_Unmarshal_Token data =
     (case data of
        JNull \<Rightarrow> Inr zero_Token
      | JObject kvs \<Rightarrow> Token_of_object kvs
      | _ \<Rightarrow> Inl (UnmarshalTypeError ''models.Token''))"

text \<open>
  \<open>json.Unmarshal(data, &info)\<close> with \<open>var info oauth2.ClientInfo\<close>: the destination is
  a nil value of an interface type that has methods. \<open>encoding/json\<close> has no concrete
  type to build there: \<open>null\<close> leaves the interface nil and every other document is an
  \<open>UnmarshalTypeError\<close>.
\<close>

definition json_Unmarshal_ClientInfo :: "jvalue \<Rightarrow> error + Client option" where
  "json_Unmarshal_ClientInfo data =
     (case data of
        JNull \<Rightarrow> Inr None
      | _ \<Rightarrow> Inl (UnmarshalTypeError ''oauth2.ClientInfo''))"

section \<open>The database behind the connection pool\<close>

text \<open>
  The pool is a collaborator: \<open>Exec\<close> runs a statement and reports an error or none,
  \<open>QueryRow\<close> runs a query whose first row \<open>Scan\<close> reads. The model keeps what the
  package's statements can observe: tables with their column definitions, rows in storage
  order and the sequence behind a \<open>BIGSERIAL\<close> column, and the indexes by name.
  PostgreSQL promises no order for the rows of a query without \<open>ORDER BY\<close>; the model
  returns them in storage order, and no property below rests on which of several
  matching rows comes first.
\<close>

datatype sqlval = VNull | VInt int | VText string | VJson jvalue | VTime time

datatype coltype = BIGSERIAL | TEXT | VARCHAR255 | JSONB | TIMESTAMPTZ

datatype colconstraint = PRIMARY_KEY | NOT_NULL

text \<open>
  One line of the column list of a \<open>CREATE TABLE\<close> as the source writes it: the column's
  name, its type, its constraints, and whether the line ends with a comma.
\<close>

record column_def =
  col_name :: string
  col_type :: coltype
  col_constraints :: "colconstraint list"
  comma_after :: bool

record pg_table =
  pg_columns :: "column_def list"
  pg_rows :: "sqlval list list"
  pg_serial :: int

record database =
  pg_tables :: "string \<rightharpoonup> pg_table"
  pg_indexes :: "string \<rightharpoonup> string \<times> string"

text \<open>
  The statements the package sends, with the table name already substituted for
  \<open>%s\<close> and the parameters for \<open>$1 ...\<close>.
\<close>

datatype statement =
    CREATE_TABLE_IF_NOT_EXISTS string "column_def list"
  | CREATE_INDEX_IF_NOT_EXISTS string string string
  | INSERT_INTO string "string list" "sqlval list"
  | SELECT_ALL_WHERE_EQ string string sqlval
  | DELETE_WHERE_EQ string string sqlval
  | DELETE_WHERE_LE string string sqlval

text \<open>
  SQL separates the elements of a column list by commas: every element but the last is
  followed by one, the last is not. A list written otherwise is a syntax error.
\<close>

definition column_list_ok :: "column_def list \<Rightarrow> bool" where
  "column_list_ok cs =
     (cs \<noteq> [] \<and> list_all comma_after (butlast cs) \<and> \<not> comma_after (last cs))"

fun col_index :: "string list \<Rightarrow> string \<Rightarrow> nat option" where
  "col_index [] c = None"
| "col_index (n # ns) c = (if n = c then Some 0 else map_option Suc (col_index ns c))"

text \<open>Whether a value is accepted by a column of the given type.\<close>

fun fits :: "coltype \<Rightarrow> sqlval \<Rightarrow> bool" where
  "fits BIGSERIAL (VInt i) = (- (2 ^ 63) \<le> i \<and> i < 2 ^ 63)"
| "fits TEXT (VText s) = True"
| "fits VARCHAR255 (VText s) = (length s \<le> 255)"
| "fits JSONB (VJson j) = True"
| "fits TIMESTAMPTZ (VTime t) = True"
| "fits ty v = False"

text \<open>
  The row an \<open>INSERT\<close> stores, column by column in the table's order: the value given for
  the column if there is one, the next value of the sequence for a \<open>BIGSERIAL\<close> column
  (a sequence ends at the largest \<open>int64\<close>), and otherwise \<open>NULL\<close>, which a
  \<open>NOT NULL\<close> or primary-key column refuses.
\<close>

fun build_row :: "column_def list \<Rightarrow> (string \<rightharpoonup> sqlval) \<Rightarrow> int \<Rightarrow> error + sqlval list" where
  "build_row [] given seq = Inr []"
| "build_row (c # cs) given seq =
     (case given (col_name c) of
        Some v \<Rightarrow>
          (if fits (col_type c) v
           then and_then (build_row cs given seq) (\<lambda>r. Inr (v # r))
           else Inl (DatatypeMismatch (col_name c)))
      | None \<Rightarrow>
          (if col_type c = BIGSERIAL
           then (if fits BIGSERIAL (VInt seq)
                 then and_then (build_row cs given seq) (\<lambda>r. Inr (VInt seq # r))
                 else Inl (SequenceLimit (col_name c)))
           else if NOT_NULL \<in> set (col_constraints c) \<or> PRIMARY_KEY \<in> set (col_constraints c)
           then Inl (NotNullViolation (col_name c))
           else and_then (build_row cs given seq) (\<lambda>r. Inr (VNull # r))))"

text \<open>
  \<open>column = value\<close> on a row: true when the row has that cell and it holds the value
  (a comparison with \<open>NULL\<close> is never true).
\<close>

definition cell_eq :: "nat \<Rightarrow> sqlval \<Rightarrow> sqlval list \<Rightarrow> bool" where
  "cell_eq i v r = (i < length r \<and> r ! i = v \<and> v \<noteq> VNull)"

text \<open>\<open>column <= value\<close> on a row, for timestamps and integers.\<close>

definition cell_le :: "nat \<Rightarrow> sqlval \<Rightarrow> sqlval list \<Rightarrow> bool" where
  "cell_le i v r =
     (i < length r \<and>
      (case (r ! i, v) of
         (VTime a, VTime b) \<Rightarrow> a \<le> b
       | (VInt a, VInt b) \<Rightarrow> a \<le> b
       | _ \<Rightarrow> False))"

text \<open>Whether a new row repeats the value of a stored row in a primary-key column.\<close>

definition pk_clash :: "column_def list \<Rightarrow> sqlval list list \<Rightarrow> sqlval list \<Rightarrow> bool" where
  "pk_clash cs stored r =
     list_ex (\<lambda>i. PRIMARY_KEY \<in> set (col_constraints (cs ! i)) \<and> i < length r \<and>
                  list_ex (cell_eq i (r ! i)) stored)
             [0 ..< length cs]"

text \<open>
  The sequence after an \<open>INSERT\<close>: it has advanced when a \<open>BIGSERIAL\<close> column drew its
  value from it.
\<close>

definition next_serial :: "pg_table \<Rightarrow> string list \<Rightarrow> int" where
  "next_serial tb cols =
     (if list_ex (\<lambda>c. col_type c = BIGSERIAL \<and> col_name c \<notin> set cols) (pg_columns tb)
      then pg_serial tb + 1 else pg_serial tb)"

text \<open>
  Running one statement: the database afterwards and the rows a query returns, or the
  error and no change.
\<close>

fun run :: "database \<Rightarrow> statement \<Rightarrow> error + database \<times> sqlval list list" where
  "run d (CREATE_TABLE_IF_NOT_EXISTS t cs) =
     (if \<not> column_list_ok cs then Inl (SyntaxError t)
      else if pg_tables d t \<noteq> None then Inr (d, [])
      else Inr (d\<lparr>pg_tables := (pg_tables d)(t \<mapsto>
                  \<lparr>pg_columns = cs, pg_rows = [], pg_serial = 1\<rparr>)\<rparr>, []))"
| "run d (CREATE_INDEX_IF_NOT_EXISTS i t c) =
     (case pg_tables d t of
        None \<Rightarrow> Inl (UndefinedTable t)
      | Some tb \<Rightarrow>
          (case col_index (map col_name (pg_columns tb)) c of
             None \<Rightarrow> Inl (UndefinedColumn c)
           | Some _ \<Rightarrow>
               (if pg_indexes d i \<noteq> None then Inr (d, [])
                else Inr (d\<lparr>pg_indexes := (pg_indexes d)(i \<mapsto> (t, c))\<rparr>, []))))"
| "run d (INSERT_INTO t cols vals) =
     (case pg_tables d t of
        None \<Rightarrow> Inl (UndefinedTable t)
      | Some tb \<Rightarrow>
          (if length cols \<noteq> length vals then Inl (SyntaxError t)
           else if \<not> list_all (\<lambda>c. col_index (map col_name (pg_columns tb)) c \<noteq> None) cols
           then Inl (UndefinedColumn t)
           else
             (case build_row (pg_columns tb) (map_of (zip cols vals)) (pg_serial tb) of
                Inl e \<Rightarrow> Inl e
              | Inr r \<Rightarrow>
                  (if pk_clash (pg_columns tb) (pg_rows tb) r then Inl (UniqueViolation t)
                   else Inr (d\<lparr>pg_tables := (pg_tables d)(t \<mapsto>
                               tb\<lparr>pg_rows := pg_rows tb @ [r],
                                  pg_serial := next_serial tb cols\<rparr>)\<rparr>, [])))))"
| "run d (SELECT_ALL_WHERE_EQ t c v) =
     (case pg_tables d t of
        None \<Rightarrow> Inl (UndefinedTable t)
      | Some tb \<Rightarrow>
          (case col_index (map col_name (pg_columns tb)) c of
             None \<Rightarrow> Inl (UndefinedColumn c)
           | Some i \<Rightarrow> Inr (d, filter (cell_eq i v) (pg_rows tb))))"
| "run d (DELETE_WHERE_EQ t c v) =
     (case pg_tables d t of
        None \<Rightarrow> Inl (UndefinedTable t)
      | Some tb \<Rightarrow>
          (case col_index (map col_name (pg_columns tb)) c of
             None \<Rightarrow> Inl (UndefinedColumn c)
           | Some i \<Rightarrow>
               Inr (d\<lparr>pg_tables := (pg_tables d)(t \<mapsto>
                      tb\<lparr>pg_rows := filter (\<lambda>r. \<not> cell_eq i v r) (pg_rows tb)\<rparr>)\<rparr>, [])))"
| "run d (DELETE_WHERE_LE t c v) =
     (case pg_tables d t of
        None \<Rightarrow> Inl (UndefinedTable t)
      | Some tb \<Rightarrow>
          (case col_index (map col_name (pg_columns tb)) c of
             None \<Rightarrow> Inl (UndefinedColumn c)
           | Some i \<Rightarrow>
               Inr (d\<lparr>pg_tables := (pg_tables d)(t \<mapsto>
                      tb\<lparr>pg_rows := filter (\<lambda>r. \<not> cell_le i v r) (pg_rows tb)\<rparr>)\<rparr>, [])))"

text \<open>
  Several statements in one \<open>Exec\<close> run in order inside one implicit transaction: the
  first error ends the script and nothing of it is kept.
\<close>

fun run_script :: "database \<Rightarrow> statement list \<Rightarrow> error + database \<times> sqlval list list" where
  "run_script d [] = Inr (d, [])"
| "run_script d [st] = run d st"
| "run_script d (st # sts) =
     (case run d st of Inl e \<Rightarrow> Inl e | Inr (d', _) \<Rightarrow> run_script d' sts)"

subsection \<open>The world of a store and the calls on the pool\<close>

text \<open>
  What a store's call can change or show: the database, the statements handed to the pool
  (oldest first), the calls made on the logger, each with its level and message, and
  \<open>idle\<close>, the number of connections the pool can still hand out. The logger is the
  caller's, or the package's \<open>NoopLogger\<close>: it is taken to return from every call.
\<close>

record world =
  db :: database
  sent :: "statement list"
  logged :: "(LogLevel \<times> string) list"
  idle :: nat

definition Log :: "LogLevel \<Rightarrow> string \<Rightarrow> world \<Rightarrow> world" where
  "Log level msg w = w\<lparr>logged := logged w @ [(level, msg)]\<rparr>"

text \<open>
  Every call on the pool takes \<open>fault\<close>, the error the call ends with before the database
  is reached, if there is one: a lost connection, a context that is cancelled or expires,
  also while the call waits for a connection. \<open>pool.Exec\<close> and \<open>pool.QueryRow\<close> take a
  connection for the call and give it back when it ends, so they leave \<open>idle\<close> as it was.
  Their context is the caller's; they are modelled for a call that gets its connection or
  ends with its context.
\<close>

definition pool_Exec :: "error option \<Rightarrow> statement list \<Rightarrow> world \<Rightarrow> error option \<times> world" where
  "pool_Exec fault script w =
     (let w' = w\<lparr>sent := sent w @ script\<rparr> in
      case fault of
        Some e \<Rightarrow> (Some e, w')
      | None \<Rightarrow>
          (case run_script (db w) script of
             Inl e \<Rightarrow> (Some e, w')
           | Inr (d, _) \<Rightarrow> (None, w'\<lparr>db := d\<rparr>)))"

text \<open>
  \<open>pool.Query\<close> returns rows and an error. When it fails it gives its connection back;
  when it succeeds the connection stays with the rows until they are closed. Its one
  caller, \<open>cleanExpiredTokens\<close>, drops the rows without closing them, so each successful
  call takes one connection out of the pool for good. The context of that caller is
  \<open>context.Background()\<close>, which never ends: with no connection left the call waits for
  one for ever. The errors the database has for the statement of the sweep (no such table,
  no such column) are found when the statement is prepared, and are the error \<open>Query\<close>
  returns.
\<close>

definition pool_Query :: "error option \<Rightarrow> statement \<Rightarrow> world \<Rightarrow> error option outcome \<times> world" where
  "pool_Query fault st w =
     (if idle w = 0 then (Blocks, w)
      else
        (let w' = w\<lparr>sent := sent w @ [st]\<rparr> in
         case fault of
           Some e \<Rightarrow> (Returns (Some e), w')
         | None \<Rightarrow>
             (case run (db w) st of
                Inl e \<Rightarrow> (Returns (Some e), w')
              | Inr (d, _) \<Rightarrow> (Returns None, w'\<lparr>db := d, idle := idle w - 1\<rparr>))))"

text \<open>
  \<open>pool.QueryRow\<close> returns a \<open>pgx.Row\<close>: the error of the query, kept until \<open>Scan\<close>,
  or its rows.
\<close>

type_synonym Row = "error + sqlval list list"

definition pool_QueryRow :: "error option \<Rightarrow> statement \<Rightarrow> world \<Rightarrow> Row \<times> world" where
  "pool_QueryRow fault st w =
     (let w' = w\<lparr>sent := sent w @ [st]\<rparr> in
      case fault of
        Some e \<Rightarrow> (Inl e, w')
      | None \<Rightarrow>
          (case run (db w) st of
             Inl e \<Rightarrow> (Inl e, w')
           | Inr (d, rs) \<Rightarrow> (Inr rs, w'\<lparr>db := d\<rparr>)))"

text \<open>
  \<open>row.Scan\<close> reads the first row: the query's error if it failed, \<open>pgx.ErrNoRows\<close> if
  it returned none.
\<close>

definition first_row :: "Row \<Rightarrow> error + sqlval list" where
  "first_row row =
     (case row of
        Inl e \<Rightarrow> Inl e
      | Inr [] \<Rightarrow> Inl ErrNoRows
      | Inr (r # _) \<Rightarrow> Inr r)"

text \<open>
  The conversions of \<open>Scan\<close> into the destinations the package uses. pgx converts an
  integer column into an \<open>int64\<close>, a text column into a \<open>string\<close>, a JSON column into
  \<open>[]byte\<close> and a timestamp into a \<open>time.Time\<close>; it has no conversion of a text column
  into an \<open>int64\<close>.
\<close>

definition scan_int64 :: "sqlval \<Rightarrow> error + int" where
  "scan_int64 v =
     (case v of
        VInt i \<Rightarrow> (if - (2 ^ 63) \<le> i \<and> i < 2 ^ 63 then Inr i else Inl (ScanError ''*int64''))
      | _ \<Rightarrow> Inl (ScanError ''*int64''))"

definition scan_string :: "sqlval \<Rightarrow> error + string" where
  "scan_string v = (case v of VText s \<Rightarrow> Inr s | _ \<Rightarrow> Inl (ScanError ''*string''))"

definition scan_bytes :: "sqlval \<Rightarrow> error + jvalue" where
  "scan_bytes v = (case v of VJson j \<Rightarrow> Inr j | _ \<Rightarrow> Inl (ScanError ''*[]byte''))"

definition scan_time :: "sqlval \<Rightarrow> error + time" where
  "scan_time v = (case v of VTime t \<Rightarrow> Inr t | _ \<Rightarrow> Inl (ScanError ''*time.Time''))"

section \<open>The stores\<close>

text \<open>
  \<open>ClientStore\<close> has the fields \<open>pool\<close>, \<open>table\<close> and \<open>logger\<close>; \<open>TokenStore\<close> has the
  same three and two more. A nil \<open>*pgxpool.Pool\<close> is \<open>None\<close>. The \<open>logger\<close> field is
  never nil in a store the constructors return.
\<close>

datatype Pool = Pool nat

datatype Ticker = Ticker duration bool

record ClientStore =
  pool :: "Pool option"
  table :: string
  logger :: Logger

record TokenStore = ClientStore +
  cleanupInterval :: duration
  cleanupTicker :: "Ticker option"

definition DefaultTokenStoreTable :: string where
  "DefaultTokenStoreTable = ''oauth2_tokens''"

definition DefaultClientStoreTable :: string where
  "DefaultClientStoreTable = ''oauth2_clients''"

subsection \<open>Options of the token store\<close>

text \<open>
  A \<open>TokenStoreOption\<close> is a \<open>func(*TokenStore) error\<close>: it may change the store and it
  returns an error or nil.
\<close>

type_synonym TokenStoreOption = "TokenStore \<Rightarrow> error option \<times> TokenStore"

definition WithTokenStoreTable :: "string \<Rightarrow> TokenStoreOption" where
  "WithTokenStoreTable tbl = (\<lambda>s. if tbl = [] then (Some ErrNoTable, s) else (None, s\<lparr>table := tbl\<rparr>))"

definition WithTokenStoreConnPool :: "Pool option \<Rightarrow> TokenStoreOption" where
  "WithTokenStoreConnPool p =
     (\<lambda>s. case p of None \<Rightarrow> (Some ErrNoConnPool, s) | Some _ \<Rightarrow> (None, s\<lparr>pool := p\<rparr>))"

definition WithTokenStoreCleanupInterval :: "duration \<Rightarrow> TokenStoreOption" where
  "WithTokenStoreCleanupInterval interval = (\<lambda>s. (None, s\<lparr>cleanupInterval := interval\<rparr>))"

definition WithTokenStoreLogger :: "Logger option \<Rightarrow> TokenStoreOption" where
  "WithTokenStoreLogger l =
     (\<lambda>s. case l of None \<Rightarrow> (Some ErrNoLogger, s) | Some lg \<Rightarrow> (None, s\<lparr>logger := lg\<rparr>))"

subsection \<open>Scanning a token row\<close>

record TokenStoreItem =
  ID :: int
  Code :: string
  Access :: string
  Refresh :: string
  Data :: jvalue
  CreatedAt :: time
  ExpiresAt :: time

text \<open>
  \<open>row.Scan(&item.ID, &item.Code, &item.Access, &item.Refresh, &item.Data,
  &item.CreatedAt, &item.ExpiresAt)\<close>: seven destinations for the seven columns of
  \<open>SELECT *\<close>, in order; a row of another width is refused.
\<close>

definition Scan_TokenStoreItem :: "sqlval list \<Rightarrow> error + TokenStoreItem" where
  "Scan_TokenStoreItem r =
     (case r of
        [c0, c1, c2, c3, c4, c5, c6] \<Rightarrow>
          and_then (scan_int64 c0) (\<lambda>ident.
          and_then (scan_string c1) (\<lambda>code.
          and_then (scan_string c2) (\<lambda>access.
          and_then (scan_string c3) (\<lambda>refresh.
          and_then (scan_bytes c4) (\<lambda>data.
          and_then (scan_time c5) (\<lambda>created_at.
          and_then (scan_time c6) (\<lambda>expires_at.
            Inr \<lparr> ID = ident, Code = code, Access = access, Refresh = refresh, Data = data,
                  CreatedAt = created_at, ExpiresAt = expires_at \<rparr>)))))))
      | _ \<Rightarrow> Inl (ScanError ''number of destinations''))"

definition scanToTokenInfo :: "TokenStore \<Rightarrow> Row \<Rightarrow> world \<Rightarrow> (error + Token) \<times> world" where
  "scanToTokenInfo s row w =
     (case and_then (first_row row) Scan_TokenStoreItem of
        Inl err \<Rightarrow> (Inl err, Log LogLevelError (Error err) w)
      | Inr item \<Rightarrow>
          (case json_Unmarshal_Token (Data item) of
             Inl err \<Rightarrow> (Inl err, Log LogLevelError (Error err) w)
           | Inr info \<Rightarrow> (Inr info, Log LogLevelDebug ''token found'' w)))"

subsection \<open>The token store\<close>

text \<open>
  The functions of \<open>token_store.go\<close>, each under its own name; \<open>InitTable\<close> and
  \<open>Create\<close> carry the store's name in front because the client store has them too. Each
  takes what the Go function reads from outside: \<open>now\<close> for \<open>time.Now()\<close>, \<open>fault\<close> for
  the pool and, where it marshals, \<open>lib\<close> for \<open>encoding/json\<close>.

  \<open>cleanExpiredTokens\<close> sends the sweep with \<open>time.Now()\<close> as its parameter through
  \<open>pool.Query\<close>, drops the rows, logs at debug level and returns the error.
\<close>

definition cleanExpiredTokens :: "TokenStore \<Rightarrow> time \<Rightarrow> error option \<Rightarrow> world \<Rightarrow> error option outcome \<times> world" where
  "cleanExpiredTokens s now fault w =
     (case pool_Query fault (DELETE_WHERE_LE (table s) ''expires_at'' (VTime now)) w of
        (Returns err, w1) \<Rightarrow> (Returns err, Log LogLevelDebug ''cleaning expired tokens'' w1)
      | (Panics, w1) \<Rightarrow> (Panics, w1)
      | (Blocks, w1) \<Rightarrow> (Blocks, w1))"

text \<open>
  \<open>InitCleanup\<close> creates the ticker when the interval is positive and starts the
  goroutine, which has no caller to return to. \<open>sweep_loop\<close> is that goroutine's
  \<open>for range s.cleanupTicker.C\<close>: one element of the list per tick the channel offers,
  with the time the sweep reads and the fault of the pool at that sweep. After the ticks
  the goroutine is back at the channel (\<open>Receiving\<close>), or it is inside a call that never
  returns (\<open>Waiting\<close>) and serves no tick any more, or it has panicked (\<open>Crashed\<close>).
\<close>

definition InitCleanup :: "TokenStore \<Rightarrow> TokenStore" where
  "InitCleanup s =
     (if 0 < sint (cleanupInterval s)
      then s\<lparr>cleanupTicker := Some (Ticker (cleanupInterval s) True)\<rparr>
      else s)"

datatype goroutine = Receiving world | Waiting world | Crashed world

fun sweep_loop :: "TokenStore \<Rightarrow> (time \<times> error option) list \<Rightarrow> world \<Rightarrow> goroutine" where
  "sweep_loop s [] w = Receiving w"
| "sweep_loop s ((now, fault) # ticks) w =
     (case cleanExpiredTokens s now fault w of
        (Returns (Some err), w1) \<Rightarrow> sweep_loop s ticks (Log LogLevelError (Error err) w1)
      | (Returns None, w1) \<Rightarrow> sweep_loop s ticks w1
      | (Panics, w1) \<Rightarrow> Crashed w1
      | (Blocks, w1) \<Rightarrow> Waiting w1)"

text \<open>The column list and the script of \<open>TokenStore.InitTable\<close>, line by line.\<close>

definition token_columns :: "column_def list" where
  "token_columns =
     [\<lparr>col_name = ''id'', col_type = BIGSERIAL, col_constraints = [PRIMARY_KEY, NOT_NULL],
       comma_after = True\<rparr>,
      \<lparr>col_name = ''code'', col_type = TEXT, col_constraints = [NOT_NULL], comma_after = True\<rparr>,
      \<lparr>col_name = ''access_token'', col_type = TEXT, col_constraints = [NOT_NULL],
       comma_after = True\<rparr>,
      \<lparr>col_name = ''refresh_token'', col_type = TEXT, col_constraints = [NOT_NULL],
       comma_after = True\<rparr>,
      \<lparr>col_name = ''data'', col_type = JSONB, col_constraints = [NOT_NULL], comma_after = True\<rparr>,
      \<lparr>col_name = ''created_at'', col_type = TIMESTAMPTZ, col_constraints = [NOT_NULL],
       comma_after = True\<rparr>,
      \<lparr>col_name = ''expires_at'', col_type = TIMESTAMPTZ, col_constraints = [NOT_NULL],
       comma_after = False\<rparr>]"

definition token_table_script :: "string \<Rightarrow> statement list" where
  "token_table_script t =
     [CREATE_TABLE_IF_NOT_EXISTS t token_columns,
      CREATE_INDEX_IF_NOT_EXISTS (''idx_'' @ t @ ''_code_idx'') t ''code'',
      CREATE_INDEX_IF_NOT_EXISTS (''idx_'' @ t @ ''_access_idx'') t ''access_token'',
      CREATE_INDEX_IF_NOT_EXISTS (''idx_'' @ t @ ''_refresh_idx'') t ''refresh_token'',
      CREATE_INDEX_IF_NOT_EXISTS (''idx_'' @ t @ ''_expires_idx'') t ''expires_at'']"

definition TokenStore_InitTable :: "TokenStore \<Rightarrow> error option \<Rightarrow> world \<Rightarrow> error option \<times> world" where
  "TokenStore_InitTable s fault w =
     (case pool_Exec fault (token_table_script (table s))
             (Log LogLevelDebug ''initializing token store table'' w) of
        (Some err, w1) \<Rightarrow> (Some err, Log LogLevelError (Error err) w1)
      | (None, w1) \<Rightarrow> (None, w1))"

text \<open>
  \<open>Create\<close>, in the order of the source. \<open>Create_item\<close> is the item it builds: it
  starts with the marshalled token and \<open>time.Now()\<close>, the other fields at their zero
  values; then the grant decides which key fields and which expiry it gets.
  \<open>Create_insert\<close> is the statement with the item's fields as its six parameters.
\<close>

definition Create_item :: "time \<Rightarrow> jvalue \<Rightarrow> Token \<Rightarrow> TokenStoreItem" where
  "Create_item now data info =
     (let item0 = \<lparr> ID = 0, Code = [], Access = [], Refresh = [], Data = data,
                    CreatedAt = now, ExpiresAt = zero_time \<rparr>
      in if GetCode info \<noteq> []
         then item0\<lparr>Code := GetCode info,
                   ExpiresAt := Add (GetCodeCreateAt info) (GetCodeExpiresIn info)\<rparr>
         else
           (let item1 =
                  (if GetAccess info \<noteq> []
                   then item0\<lparr>Access := GetAccess info,
                             ExpiresAt := Add (GetAccessCreateAt info) (GetAccessExpiresIn info)\<rparr>
                   else item0)
            in if GetRefresh info \<noteq> []
               then item1\<lparr>Refresh := GetRefresh info,
                         ExpiresAt := Add (GetRefreshCreateAt info) (GetRefreshExpiresIn info)\<rparr>
               else item1))"

definition Create_insert :: "string \<Rightarrow> TokenStoreItem \<Rightarrow> statement" where
  "Create_insert t item =
     INSERT_INTO t
       [''code'', ''access_token'', ''refresh_token'', ''data'', ''created_at'', ''expires_at'']
       [VText (Code item), VText (Access item), VText (Refresh item),
        VJson (Data item), VTime (CreatedAt item), VTime (ExpiresAt item)]"

definition TokenStore_Create :: "json_lib \<Rightarrow> TokenStore \<Rightarrow> time \<Rightarrow> error option \<Rightarrow> Token \<Rightarrow> world \<Rightarrow> error option \<times> world" where
  "TokenStore_Create lib s now fault info w =
     (let w0 = Log LogLevelDebug ''creating token'' w in
      case json_Marshal_Token lib info of
        Inl err \<Rightarrow> (Some err, Log LogLevelError (Error err) w0)
      | Inr data \<Rightarrow>
          (case pool_Exec fault [Create_insert (table s) (Create_item now data info)] w0 of
             (Some err, w1) \<Rightarrow> (Some err, Log LogLevelError (Error err) w1)
           | (None, w1) \<Rightarrow> (None, Log LogLevelDebug ''token created'' w1)))"

definition GetByCode :: "TokenStore \<Rightarrow> error option \<Rightarrow> string \<Rightarrow> world \<Rightarrow> (error + Token) \<times> world" where
  "GetByCode s fault code w =
     (case pool_QueryRow fault (SELECT_ALL_WHERE_EQ (table s) ''code'' (VText code))
             (Log LogLevelDebug ''getting token by authorization code'' w) of
        (row, w1) \<Rightarrow> scanToTokenInfo s row w1)"

definition GetByAccess :: "TokenStore \<Rightarrow> error option \<Rightarrow> string \<Rightarrow> world \<Rightarrow> (error + Token) \<times> world" where
  "GetByAccess s fault access w =
     (case pool_QueryRow fault (SELECT_ALL_WHERE_EQ (table s) ''access_token'' (VText access))
             (Log LogLevelDebug ''getting token by access token'' w) of
        (row, w1) \<Rightarrow> scanToTokenInfo s row w1)"

definition GetByRefresh :: "TokenStore \<Rightarrow> error option \<Rightarrow> string \<Rightarrow> world \<Rightarrow> (error + Token) \<times> world" where
  "GetByRefresh s fault refresh w =
     (case pool_QueryRow fault (SELECT_ALL_WHERE_EQ (table s) ''refresh_token'' (VText refresh))
             (Log LogLevelDebug ''getting token by refresh token'' w) of
        (row, w1) \<Rightarrow> scanToTokenInfo s row w1)"

text \<open>
  The three removals. After the guard for an empty key and the \<open>DELETE\<close>, the branch
  \<open>if !errors.Is(err, pgx.ErrNoRows)\<close> logs \<open>err.Error()\<close> and returns \<open>err\<close>; with a
  nil \<open>err\<close> the branch is taken as well, and \<open>err.Error()\<close> panics there.
\<close>

definition RemoveByCode :: "TokenStore \<Rightarrow> error option \<Rightarrow> string \<Rightarrow> world \<Rightarrow> error option outcome \<times> world" where
  "RemoveByCode s fault code w =
     (let w0 = Log LogLevelDebug ''removing token by authorization code'' w in
      if code = [] then (Returns None, Log LogLevelWarn ''no code was provided'' w0)
      else
        (case pool_Exec fault [DELETE_WHERE_EQ (table s) ''code'' (VText code)] w0 of
           (err, w1) \<Rightarrow>
             (if \<not> errors_Is err ErrNoRows
              then (case err of
                      None \<Rightarrow> (Panics, w1)
                    | Some e \<Rightarrow> (Returns (Some e), Log LogLevelError (Error e) w1))
              else (Returns None, Log LogLevelInfo ''token removed'' w1))))"

definition RemoveByAccess :: "TokenStore \<Rightarrow> error option \<Rightarrow> string \<Rightarrow> world \<Rightarrow> error option outcome \<times> world" where
  "RemoveByAccess s fault access w =
     (let w0 = Log LogLevelDebug ''removing token by access token'' w in
      if access = [] then (Returns None, Log LogLevelWarn ''no access was provided'' w0)
      else
        (case pool_Exec fault [DELETE_WHERE_EQ (table s) ''access_token'' (VText access)] w0 of
           (err, w1) \<Rightarrow>
             (if \<not> errors_Is err ErrNoRows
              then (case err of
                      None \<Rightarrow> (Panics, w1)
                    | Some e \<Rightarrow> (Returns (Some e), Log LogLevelError (Error e) w1))
              else (Returns None, Log LogLevelInfo ''token removed'' w1))))"

definition RemoveByRefresh :: "TokenStore \<Rightarrow> error option \<Rightarrow> string \<Rightarrow> world \<Rightarrow> error option outcome \<times> world" where
  "RemoveByRefresh s fault refresh w =
     (let w0 = Log LogLevelDebug ''removing token by refresh token'' w in
      if refresh = [] then (Returns None, Log LogLevelWarn ''no refresh was provided'' w0)
      else
        (case pool_Exec fault [DELETE_WHERE_EQ (table s) ''refresh_token'' (VText refresh)] w0 of
           (err, w1) \<Rightarrow>
             (if \<not> errors_Is err ErrNoRows
              then (case err of
                      None \<Rightarrow> (Panics, w1)
                    | Some e \<Rightarrow> (Returns (Some e), Log LogLevelError (Error e) w1))
              else (Returns None, Log LogLevelInfo ''token removed'' w1))))"

text \<open>\<open>Close\<close> stops the ticker if there is one.\<close>

definition Close :: "TokenStore \<Rightarrow> world \<Rightarrow> TokenStore \<times> world" where
  "Close s w =
     (let w0 = Log LogLevelDebug ''closing token store'' w in
      case cleanupTicker s of
        None \<Rightarrow> (s, Log LogLevelDebug ''token store closed'' w0)
      | Some (Ticker d _) \<Rightarrow>
          (s\<lparr>cleanupTicker := Some (Ticker d False)\<rparr>,
           Log LogLevelDebug ''token store closed''
             (Log LogLevelDebug ''stopping cleanup ticker'' w0)))"

text \<open>
  \<open>NewTokenStore\<close>: the options run in order on a store with the default table and the
  no-op logger; the loop returns at the first error. Then the pool must be set.
\<close>

fun apply_TokenStoreOptions :: "TokenStoreOption list \<Rightarrow> TokenStore \<Rightarrow> error option \<times> TokenStore" where
  "apply_TokenStoreOptions [] s = (None, s)"
| "apply_TokenStoreOptions (opt # opts) s =
     (case opt s of
        (Some err, s') \<Rightarrow> (Some err, s')
      | (None, s') \<Rightarrow> apply_TokenStoreOptions opts s')"

definition new_TokenStore :: TokenStore where
  "new_TokenStore = \<lparr> pool = None, table = DefaultTokenStoreTable, logger = NoopLogger,
                      cleanupInterval = 0, cleanupTicker = None \<rparr>"

definition NewTokenStore :: "TokenStoreOption list \<Rightarrow> TokenStore option \<times> error option" where
  "NewTokenStore opts =
     (case apply_TokenStoreOptions opts new_TokenStore of
        (Some err, _) \<Rightarrow> (None, Some err)
      | (None, s) \<Rightarrow>
          (if pool s = None then (None, Some ErrNoConnPool)
           else (Some (InitCleanup s), None)))"

subsection \<open>The client store\<close>

text \<open>
  The functions of the client store. It has no \<open>InitCleanup\<close>, no removal and no
  logging in \<open>scanToClientInfo\<close> before the row is found.
\<close>

type_synonym ClientStoreOption = "ClientStore \<Rightarrow> error option \<times> ClientStore"

definition WithClientStoreTable :: "string \<Rightarrow> ClientStoreOption" where
  "WithClientStoreTable tbl = (\<lambda>s. if tbl = [] then (Some ErrNoTable, s) else (None, s\<lparr>table := tbl\<rparr>))"

definition WithClientStoreConnPool :: "Pool option \<Rightarrow> ClientStoreOption" where
  "WithClientStoreConnPool p =
     (\<lambda>s. case p of None \<Rightarrow> (Some ErrNoConnPool, s) | Some _ \<Rightarrow> (None, s\<lparr>pool := p\<rparr>))"

definition WithClientStoreLogger :: "Logger option \<Rightarrow> ClientStoreOption" where
  "WithClientStoreLogger l =
     (\<lambda>s. case l of None \<Rightarrow> (Some ErrNoLogger, s) | Some lg \<Rightarrow> (None, s\<lparr>logger := lg\<rparr>))"

text \<open>
  \<open>ClientStoreItem\<close>; its fields are primed where \<open>TokenStoreItem\<close> has the same name.
  \<open>ID\<close> is an \<open>int64\<close> here as well.
\<close>

record ClientStoreItem =
  ID' :: int
  Secret :: string
  Domain :: string
  Data' :: jvalue
  CreatedAt' :: time

definition Scan_ClientStoreItem :: "sqlval list \<Rightarrow> error + ClientStoreItem" where
  "Scan_ClientStoreItem r =
     (case r of
        [c0, c1, c2, c3, c4] \<Rightarrow>
          and_then (scan_int64 c0) (\<lambda>ident.
          and_then (scan_string c1) (\<lambda>secret.
          and_then (scan_string c2) (\<lambda>domain.
          and_then (scan_bytes c3) (\<lambda>data.
          and_then (scan_time c4) (\<lambda>created_at.
            Inr \<lparr> ID' = ident, Secret = secret, Domain = domain, Data' = data,
                  CreatedAt' = created_at \<rparr>)))))
      | _ \<Rightarrow> Inl (ScanError ''number of destinations''))"

text \<open>
  \<open>scanToClientInfo\<close> returns an \<open>oauth2.ClientInfo\<close>, an interface value that may be
  nil (\<open>None\<close>).
\<close>

definition scanToClientInfo :: "ClientStore \<Rightarrow> Row \<Rightarrow> world \<Rightarrow> (error + Client option) \<times> world" where
  "scanToClientInfo s row w =
     (case and_then (first_row row) Scan_ClientStoreItem of
        Inl err \<Rightarrow> (Inl err, w)
      | Inr item \<Rightarrow>
          (case json_Unmarshal_ClientInfo (Data' item) of
             Inl err \<Rightarrow> (Inl err, w)
           | Inr info \<Rightarrow> (Inr info, Log LogLevelDebug ''client found'' w)))"

text \<open>
  The column list of \<open>ClientStore.InitTable\<close>, line by line: the line of \<open>data\<close> ends
  without a comma and the last line, \<open>created_at\<close>, ends with one.
\<close>

definition client_columns :: "column_def list" where
  "client_columns =
     [\<lparr>col_name = ''id'', col_type = VARCHAR255, col_constraints = [PRIMARY_KEY],
       comma_after = True\<rparr>,
      \<lparr>col_name = ''secret'', col_type = VARCHAR255, col_constraints = [NOT_NULL],
       comma_after = True\<rparr>,
      \<lparr>col_name = ''domain'', col_type = VARCHAR255, col_constraints = [NOT_NULL],
       comma_after = True\<rparr>,
      \<lparr>col_name = ''data'', col_type = JSONB, col_constraints = [NOT_NULL], comma_after = False\<rparr>,
      \<lparr>col_name = ''created_at'', col_type = TIMESTAMPTZ, col_constraints = [NOT_NULL],
       comma_after = True\<rparr>]"

definition client_table_script :: "string \<Rightarrow> statement list" where
  "client_table_script t =
     [CREATE_TABLE_IF_NOT_EXISTS t client_columns,
      CREATE_INDEX_IF_NOT_EXISTS (t @ ''_domain_idx'') t ''domain'']"

definition ClientStore_InitTable :: "ClientStore \<Rightarrow> error option \<Rightarrow> world \<Rightarrow> error option \<times> world" where
  "ClientStore_InitTable s fault w =
     (case pool_Exec fault (client_table_script (table s))
             (Log LogLevelDebug ''initializing client store table'' w) of
        (Some err, w1) \<Rightarrow> (Some err, Log LogLevelError (Error err) w1)
      | (None, w1) \<Rightarrow> (None, w1))"

definition ClientStore_Create :: "json_lib \<Rightarrow> ClientStore \<Rightarrow> time \<Rightarrow> error option \<Rightarrow> Client \<Rightarrow> world \<Rightarrow> error option \<times> world" where
  "ClientStore_Create lib s now fault info w =
     (let w0 = Log LogLevelDebug ''creating client'' w in
      case json_Marshal_Client lib info of
        Inl err \<Rightarrow> (Some err, w0)
      | Inr data \<Rightarrow>
          (case pool_Exec fault
                  [INSERT_INTO (table s)
                     [''id'', ''secret'', ''domain'', ''data'', ''created_at'']
                     [VText (GetID info), VText (GetSecret info), VText (GetDomain info),
                      VJson data, VTime now]]
                  w0 of
             (Some err, w1) \<Rightarrow> (Some err, Log LogLevelError ''creating client failed'' w1)
           | (None, w1) \<Rightarrow> (None, Log LogLevelDebug ''client created'' w1)))"

definition GetByID :: "ClientStore \<Rightarrow> error option \<Rightarrow> string \<Rightarrow> world \<Rightarrow> (error + Client option) \<times> world" where
  "GetByID s fault key w =
     (case pool_QueryRow fault (SELECT_ALL_WHERE_EQ (table s) ''id'' (VText key))
             (Log LogLevelDebug ''client get by id'' w) of
        (row, w1) \<Rightarrow> scanToClientInfo s row w1)"

fun apply_ClientStoreOptions :: "ClientStoreOption list \<Rightarrow> ClientStore \<Rightarrow> error option \<times> ClientStore" where
  "apply_ClientStoreOptions [] s = (None, s)"
| "apply_ClientStoreOptions (opt # opts) s =
     (case opt s of
        (Some err, s') \<Rightarrow> (Some err, s')
      | (None, s') \<Rightarrow> apply_ClientStoreOptions opts s')"

definition new_ClientStore :: ClientStore where
  "new_ClientStore = \<lparr> pool = None, table = DefaultClientStoreTable, logger = NoopLogger \<rparr>"

definition NewClientStore :: "ClientStoreOption list \<Rightarrow> ClientStore option \<times> error option" where
  "NewClientStore opts =
     (case apply_ClientStoreOptions opts new_ClientStore of
        (Some err, _) \<Rightarrow> (None, Some err)
      | (None, s) \<Rightarrow>
          (if pool s = None then (None, Some ErrNoConnPool)
           else (Some s, None)))"

section \<open>States and inputs the properties refer to\<close>

text \<open>
  \<open>has_token_table\<close>: the store's table exists with the columns \<open>InitTable\<close> gives
  it. \<open>empty_world\<close> is a database with no table, before any call, behind a pool of
  four connections (what \<open>pgxpool\<close> allows at least by default); \<open>example_store\<close> is the
  store \<open>NewTokenStore\<close> returns for a single connection-pool option.
\<close>

definition has_token_table :: "TokenStore \<Rightarrow> world \<Rightarrow> bool" where
  "has_token_table s w =
     (case pg_tables (db w) (table s) of
        None \<Rightarrow> False
      | Some tb \<Rightarrow> pg_columns tb = token_columns)"

definition empty_world :: world where
  "empty_world =
     \<lparr> db = \<lparr> pg_tables = Map.empty, pg_indexes = Map.empty \<rparr>, sent = [], logged = [],
       idle = 4 \<rparr>"

definition example_store :: TokenStore where
  "example_store = new_TokenStore\<lparr>pool := Some (Pool 0)\<rparr>"

text \<open>
  \<open>json_exact lib info\<close>: the library writes every string and every time of the token
  into the document as it is. For \<open>encoding/json\<close> these are the tokens whose strings are
  valid UTF-8 and whose times have a year from 0 to 9999 and a zone offset of whole
  minutes.
\<close>

definition json_exact :: "json_lib \<Rightarrow> Token \<Rightarrow> bool" where
  "json_exact lib info =
     (json_String lib (GetClientID info) = GetClientID info \<and>
      json_String lib (GetUserID info) = GetUserID info \<and>
      json_String lib (GetRedirectURI info) = GetRedirectURI info \<and>
      json_String lib (GetScope info) = GetScope info \<and>
      json_String lib (GetCode info) = GetCode info \<and>
      json_String lib (GetCodeChallenge info) = GetCodeChallenge info \<and>
      json_String lib (GetCodeChallengeMethod info) = GetCodeChallengeMethod info \<and>
      json_String lib (GetAccess info) = GetAccess info \<and>
      json_String lib (GetRefresh info) = GetRefresh info \<and>
      json_Time lib (GetCodeCreateAt info) = Inr (GetCodeCreateAt info) \<and>
      json_Time lib (GetAccessCreateAt info) = Inr (GetAccessCreateAt info) \<and>
      json_Time lib (GetRefreshCreateAt info) = Inr (GetRefreshCreateAt info))"

text \<open>
  \<open>utc_lib\<close> is \<open>encoding/json\<close> for tokens whose times are in UTC. \<open>to_valid_utf8\<close>
  reads a string as UTF-8 the way Go does: \<open>rune_len\<close> is the length of the encoding at
  the head of the bytes, 0 when there is none (a byte that cannot start one, a wrong or
  missing continuation byte, an overlong form, a surrogate, a value above U+10FFFF), and
  every byte at which no encoding starts becomes U+FFFD (bytes EF BF BD). A time in UTC
  is written with the offset \<open>Z\<close> and denotes its own instant; \<open>MarshalJSON\<close> refuses a
  year before 0 or after 9999.
\<close>

definition cont :: "nat \<Rightarrow> bool" where
  "cont b = (128 \<le> b \<and> b \<le> 191)"

fun rune_len :: "nat list \<Rightarrow> nat" where
  "rune_len [] = 0"
| "rune_len (b0 # bs) =
     (if b0 < 128 then 1
      else if 194 \<le> b0 \<and> b0 \<le> 223
      then (case bs of b1 # _ \<Rightarrow> if cont b1 then 2 else 0 | _ \<Rightarrow> 0)
      else if 224 \<le> b0 \<and> b0 \<le> 239
      then (case bs of
              b1 # b2 # _ \<Rightarrow>
                if (if b0 = 224 then 160 else 128) \<le> b1 \<and>
                   b1 \<le> (if b0 = 237 then 159 else 191) \<and> cont b2
                then 3 else 0
            | _ \<Rightarrow> 0)
      else if 240 \<le> b0 \<and> b0 \<le> 244
      then (case bs of
              b1 # b2 # b3 # _ \<Rightarrow>
                if (if b0 = 240 then 144 else 128) \<le> b1 \<and>
                   b1 \<le> (if b0 = 244 then 143 else 191) \<and> cont b2 \<and> cont b3
                then 4 else 0
            | _ \<Rightarrow> 0)
      else 0)"

fun to_valid_utf8 :: "string \<Rightarrow> string" where
  "to_valid_utf8 [] = []"
| "to_valid_utf8 (c # cs) =
     (case rune_len (map of_char (c # take 3 cs)) of
        0 \<Rightarrow> [CHR 0xEF, CHR 0xBF, CHR 0xBD] @ to_valid_utf8 cs
      | Suc n \<Rightarrow> c # take n cs @ to_valid_utf8 (drop n cs))"

definition year_0 :: time where
  "year_0 = - 62167219200 * 1000000000"

definition year_10000 :: time where
  "year_10000 = 253402300800 * 1000000000"

definition utc_lib :: json_lib where
  "utc_lib =
     \<lparr> json_String = to_valid_utf8,
       json_Time = (\<lambda>t. if year_0 \<le> t \<and> t < year_10000 then Inr t
                        else Inl (MarshalError
                          ''time.Time: Time.MarshalJSON: year outside of range [0,9999]'')) \<rparr>"

text \<open>
  Three tokens: an authorization code that also carries an access token, an access token
  alone, and an access token with its refresh token.
\<close>

definition example_code_token :: Token where
  "example_code_token =
     zero_Token\<lparr>GetCode := ''abc'', GetCodeCreateAt := 1000, GetCodeExpiresIn := 60,
                GetAccess := ''acc'', GetAccessCreateAt := 2000, GetAccessExpiresIn := 120\<rparr>"

definition example_access_token :: Token where
  "example_access_token =
     zero_Token\<lparr>GetAccess := ''acc'', GetAccessCreateAt := 2000, GetAccessExpiresIn := 120\<rparr>"

definition example_pair_token :: Token where
  "example_pair_token =
     zero_Token\<lparr>GetAccess := ''acc'', GetAccessCreateAt := 2000, GetAccessExpiresIn := 120,
                GetRefresh := ''ref'', GetRefreshCreateAt := 3000, GetRefreshExpiresIn := 240\<rparr>"

text \<open>
  A token whose user id is the single byte FF, which is not UTF-8.
\<close>

definition example_binary_token :: Token where
  "example_binary_token = example_code_token\<lparr>GetUserID := [CHR 0xFF]\<rparr>"

text \<open>A store with a cleanup interval of one second.\<close>

definition sweeping_store :: TokenStore where
  "sweeping_store = example_store\<lparr>cleanupInterval := 1000000000\<rparr>"

text \<open>
  A client store, a client, and a database in which the clients table exists with the
  columns the source lists, made by hand.
\<close>

definition example_client_store :: ClientStore where
  "example_client_store = new_ClientStore\<lparr>pool := Some (Pool 0)\<rparr>"

definition example_client :: Client where
  "example_client = \<lparr> GetID = ''client-1'', GetSecret = ''s3cret'',
     GetDomain = ''https://example.org'', IsPublic = False, GetUserID' = '''' \<rparr>"

definition client_world :: world where
  "client_world =
     \<lparr> db = \<lparr> pg_tables = [''oauth2_clients'' \<mapsto>
                    \<lparr>pg_columns = client_columns, pg_rows = [], pg_serial = 1\<rparr>],
              pg_indexes = Map.empty \<rparr>,
       sent = [], logged = [], idle = 4 \<rparr>"

text \<open>
  \<open>decode_row\<close>: what \<open>scanToTokenInfo\<close> returns for a row, the scan followed by the
  unmarshalling of the \<open>data\<close> column. \<open>ready_world\<close> is the empty database after
  \<open>InitTable\<close> of the example store.
\<close>

definition decode_row :: "sqlval list \<Rightarrow> error + Token" where
  "decode_row r = and_then (Scan_TokenStoreItem r) (\<lambda>item. json_Unmarshal_Token (Data item))"

definition ready_world :: world where
  "ready_world = snd (TokenStore_InitTable example_store None empty_world)"

text \<open>
  \<open>sweep_fails s w tick\<close>: the sweep the goroutine runs for \<open>tick\<close> from the world \<open>w\<close>
  returns an error.
\<close>

definition sweep_fails :: "TokenStore \<Rightarrow> world \<Rightarrow> time \<times> error option \<Rightarrow> bool" where
  "sweep_fails s w tick =
     (case fst (cleanExpiredTokens s (fst tick) (snd tick) w) of
        Returns (Some err) \<Rightarrow> True
      | _ \<Rightarrow> False)"

section \<open>Properties\<close>

subsection \<open>Column lists and the table of the token store\<close>

lemma token_columns_ok: "column_list_ok token_columns"
  by (simp add: column_list_ok_def token_columns_def)

lemma client_columns_bad: "\<not> column_list_ok client_columns"
  by (simp add: column_list_ok_def client_columns_def)

lemma token_col_index:
  "col_index (map col_name token_columns) ''code'' = Some 1"
  "col_index (map col_name token_columns) ''access_token'' = Some 2"
  "col_index (map col_name token_columns) ''refresh_token'' = Some 3"
  "col_index (map col_name token_columns) ''expires_at'' = Some 6"
  by (simp_all add: token_columns_def)

lemma init_script_fresh:
  "pg_tables d t = None \<Longrightarrow>
   \<exists>d'. run_script d (token_table_script t) = Inr (d', []) \<and>
        pg_tables d' =
          (pg_tables d)(t \<mapsto> \<lparr>pg_columns = token_columns, pg_rows = [], pg_serial = 1\<rparr>)"
  by (simp add: token_table_script_def token_columns_ok token_col_index)

lemma example_ready: "has_token_table example_store ready_world"
  using init_script_fresh [of "db empty_world" "table example_store"]
  by (auto simp add: ready_world_def has_token_table_def TokenStore_InitTable_def pool_Exec_def
      Log_def empty_world_def split: prod.splits option.splits sum.splits)

lemma example_store_constructed:
  "NewTokenStore [WithTokenStoreConnPool (Some (Pool 0))] = (Some example_store, None)"
  by (simp add: NewTokenStore_def WithTokenStoreConnPool_def example_store_def
      new_TokenStore_def InitCleanup_def)

subsection \<open>Removal with an empty key\<close>

text \<open>
  C4. In every world, for every store and whatever the pool would answer,
  \<open>RemoveByCode("")\<close>, \<open>RemoveByAccess("")\<close> and \<open>RemoveByRefresh("")\<close> return a nil
  error, leave the database as it was (no row is deleted) and hand no statement to the
  pool.
\<close>

theorem remove_empty_key_is_noop:
  "fst (RemoveByCode s fault '''' w) = Returns None \<and>
   db (snd (RemoveByCode s fault '''' w)) = db w \<and>
   sent (snd (RemoveByCode s fault '''' w)) = sent w \<and>
   fst (RemoveByAccess s fault '''' w) = Returns None \<and>
   db (snd (RemoveByAccess s fault '''' w)) = db w \<and>
   sent (snd (RemoveByAccess s fault '''' w)) = sent w \<and>
   fst (RemoveByRefresh s fault '''' w) = Returns None \<and>
   db (snd (RemoveByRefresh s fault '''' w)) = db w \<and>
   sent (snd (RemoveByRefresh s fault '''' w)) = sent w"
  by (simp add: RemoveByCode_def RemoveByAccess_def RemoveByRefresh_def Log_def)

subsection \<open>Removal with a key\<close>

lemma delete_runs:
  assumes "has_token_table s w" and "db w0 = db w"
    and "c = ''code'' \<or> c = ''access_token'' \<or> c = ''refresh_token''"
  shows "\<exists>d. run_script (db w0) [DELETE_WHERE_EQ (table s) c v] = Inr (d, [])"
  using assms
  by (auto simp add: has_token_table_def token_col_index split: option.splits)

text \<open>
  With a failure from the pool the removals behave as documented: \<open>pgx.ErrNoRows\<close> (also
  wrapped) is success, any other error is returned.
\<close>

lemma remove_with_fault:
  "key \<noteq> '''' \<Longrightarrow>
   fst (RemoveByCode s (Some e) key w) =
     (if chain_has e ErrNoRows then Returns None else Returns (Some e)) \<and>
   fst (RemoveByAccess s (Some e) key w) =
     (if chain_has e ErrNoRows then Returns None else Returns (Some e)) \<and>
   fst (RemoveByRefresh s (Some e) key w) =
     (if chain_has e ErrNoRows then Returns None else Returns (Some e))"
  by (simp add: RemoveByCode_def RemoveByAccess_def RemoveByRefresh_def pool_Exec_def
      errors_Is_def Let_def)

text \<open>
  C1 (the code departs from it). On a table that exists, with a non-empty key and no
  failure of the pool, the \<open>DELETE\<close> runs and \<open>Exec\<close> returns a nil error, whether rows
  matched or not. The three removals then do not return nil: they panic, because the
  branch for "an error other than no-rows" is entered with the nil error and calls
  \<open>err.Error()\<close> on it.
\<close>

theorem remove_panics_when_delete_succeeds:
  assumes "has_token_table s w" and "key \<noteq> ''''"
  shows "fst (RemoveByCode s None key w) = Panics \<and>
         fst (RemoveByAccess s None key w) = Panics \<and>
         fst (RemoveByRefresh s None key w) = Panics"
proof -
  have by_column:
    "fst (case pool_Exec None [DELETE_WHERE_EQ (table s) c (VText key)] w0 of
            (err, w1) \<Rightarrow>
              (if \<not> errors_Is err ErrNoRows
               then (case err of
                       None \<Rightarrow> (Panics, w1)
                     | Some e \<Rightarrow> (Returns (Some e), Log LogLevelError (Error e) w1))
               else (Returns None, Log LogLevelInfo ''token removed'' w1))) = Panics"
    if "db w0 = db w" and "c = ''code'' \<or> c = ''access_token'' \<or> c = ''refresh_token''"
    for c w0
  proof -
    from delete_runs [OF assms(1) that(1) that(2)]
    obtain d where "run_script (db w0) [DELETE_WHERE_EQ (table s) c (VText key)] = Inr (d, [])"
      by blast
    then show ?thesis
      by (simp add: pool_Exec_def errors_Is_def Let_def)
  qed
  show ?thesis
    using assms(2) by (simp add: RemoveByCode_def RemoveByAccess_def RemoveByRefresh_def
        Let_def by_column Log_def)
qed

theorem remove_panics_witness:
  "has_token_table example_store ready_world \<and> ''abc'' \<noteq> '''' \<and>
   fst (RemoveByCode example_store None ''abc'' ready_world) = Panics \<and>
   fst (RemoveByAccess example_store None ''abc'' ready_world) = Panics \<and>
   fst (RemoveByRefresh example_store None ''abc'' ready_world) = Panics"
  using remove_panics_when_delete_succeeds [OF example_ready, of "''abc''"] example_ready
  by simp

subsection \<open>The expiry of a new row\<close>

lemma world_Log: "db (Log l m w) = db w" "sent (Log l m w) = sent w"
  by (simp_all add: Log_def)

lemma sent_pool_Exec: "sent (snd (pool_Exec fault script w)) = sent w @ script"
  by (simp add: pool_Exec_def Let_def split: option.splits sum.splits prod.splits)

lemma sent_Create:
  assumes "json_Marshal_Token lib info = Inr data"
  shows "sent (snd (TokenStore_Create lib s now fault info w)) =
         sent w @ [Create_insert (table s) (Create_item now data info)]"
proof -
  let ?p = "pool_Exec fault [Create_insert (table s) (Create_item now data info)]
              (Log LogLevelDebug ''creating token'' w)"
  have "sent (snd ?p) = sent w @ [Create_insert (table s) (Create_item now data info)]"
    by (simp add: sent_pool_Exec world_Log)
  moreover have "sent (snd (TokenStore_Create lib s now fault info w)) = sent (snd ?p)"
    using assms by (cases ?p; cases "fst ?p") (simp_all add: TokenStore_Create_def world_Log)
  ultimately show ?thesis by simp
qed

text \<open>
  C3. \<open>Create\<close> hands the pool one \<open>INSERT\<close> whose sixth parameter is the item's
  \<open>ExpiresAt\<close>. With a non-empty code it is the code's issue time plus the code's TTL,
  whatever the access and refresh fields hold. With an empty code, an access token alone
  gives the access issue time plus the access TTL, and a non-empty refresh token gives the
  refresh issue time plus the refresh TTL, also when an access token is present.
\<close>

theorem create_expires_at:
  "json_Marshal_Token lib info = Inr data \<Longrightarrow>
   sent (snd (TokenStore_Create lib s now fault info w)) = sent w @
     [INSERT_INTO (table s)
        [''code'', ''access_token'', ''refresh_token'', ''data'', ''created_at'', ''expires_at'']
        [VText (Code (Create_item now data info)), VText (Access (Create_item now data info)),
         VText (Refresh (Create_item now data info)), VJson data, VTime now,
         VTime (ExpiresAt (Create_item now data info))]] \<and>
   (GetCode info \<noteq> '''' \<longrightarrow>
      ExpiresAt (Create_item now data info) =
        GetCodeCreateAt info + sint (GetCodeExpiresIn info)) \<and>
   (GetCode info = '''' \<and> GetAccess info \<noteq> '''' \<and> GetRefresh info = '''' \<longrightarrow>
      ExpiresAt (Create_item now data info) =
        GetAccessCreateAt info + sint (GetAccessExpiresIn info)) \<and>
   (GetCode info = '''' \<and> GetRefresh info \<noteq> '''' \<longrightarrow>
      ExpiresAt (Create_item now data info) =
        GetRefreshCreateAt info + sint (GetRefreshExpiresIn info))"
proof (intro conjI impI)
  assume m: "json_Marshal_Token lib info = Inr data"
  have "Data (Create_item now data info) = data" "CreatedAt (Create_item now data info) = now"
    by (simp_all add: Create_item_def Let_def)
  then show "sent (snd (TokenStore_Create lib s now fault info w)) = sent w @
     [INSERT_INTO (table s)
        [''code'', ''access_token'', ''refresh_token'', ''data'', ''created_at'', ''expires_at'']
        [VText (Code (Create_item now data info)), VText (Access (Create_item now data info)),
         VText (Refresh (Create_item now data info)), VJson data, VTime now,
         VTime (ExpiresAt (Create_item now data info))]]"
    using sent_Create [OF m, of s now fault w] by (simp add: Create_insert_def)
qed (simp_all add: Create_item_def Let_def Add_def)

theorem create_expires_at_witness:
  "json_Marshal_Token utc_lib example_code_token =
     Inr (projr (json_Marshal_Token utc_lib example_code_token)) \<and>
   GetCode example_code_token \<noteq> '''' \<and> GetAccess example_code_token \<noteq> '''' \<and>
   ExpiresAt (Create_item 5000 (projr (json_Marshal_Token utc_lib example_code_token))
                example_code_token) = 1060 \<and>
   json_Marshal_Token utc_lib example_access_token =
     Inr (projr (json_Marshal_Token utc_lib example_access_token)) \<and>
   GetCode example_access_token = '''' \<and> GetAccess example_access_token \<noteq> '''' \<and>
   GetRefresh example_access_token = '''' \<and>
   ExpiresAt (Create_item 5000 (projr (json_Marshal_Token utc_lib example_access_token))
                example_access_token) = 2120 \<and>
   json_Marshal_Token utc_lib example_pair_token =
     Inr (projr (json_Marshal_Token utc_lib example_pair_token)) \<and>
   GetCode example_pair_token = '''' \<and> GetAccess example_pair_token \<noteq> '''' \<and>
   GetRefresh example_pair_token \<noteq> '''' \<and>
   ExpiresAt (Create_item 5000 (projr (json_Marshal_Token utc_lib example_pair_token))
                example_pair_token) = 3240"
proof -
  have m:
    "json_Marshal_Token utc_lib example_code_token =
       Inr (projr (json_Marshal_Token utc_lib example_code_token))"
    "json_Marshal_Token utc_lib example_access_token =
       Inr (projr (json_Marshal_Token utc_lib example_access_token))"
    "json_Marshal_Token utc_lib example_pair_token =
       Inr (projr (json_Marshal_Token utc_lib example_pair_token))"
    by (simp_all add: json_Marshal_Token_def and_then_def utc_lib_def year_0_def year_10000_def
        example_code_token_def example_access_token_def example_pair_token_def
        zero_Token_def zero_time_def)
  have c: "GetCode example_code_token \<noteq> ''''" "GetAccess example_code_token \<noteq> ''''"
    by (simp_all add: example_code_token_def zero_Token_def)
  have a: "GetCode example_access_token = ''''" "GetAccess example_access_token \<noteq> ''''"
    "GetRefresh example_access_token = ''''"
    by (simp_all add: example_access_token_def zero_Token_def)
  have p: "GetCode example_pair_token = ''''" "GetAccess example_pair_token \<noteq> ''''"
    "GetRefresh example_pair_token \<noteq> ''''"
    by (simp_all add: example_pair_token_def zero_Token_def)
  have v:
    "GetCodeCreateAt example_code_token + sint (GetCodeExpiresIn example_code_token) = 1060"
    "GetAccessCreateAt example_access_token + sint (GetAccessExpiresIn example_access_token)
       = 2120"
    "GetRefreshCreateAt example_pair_token + sint (GetRefreshExpiresIn example_pair_token)
       = 3240"
    by (simp_all add: example_code_token_def example_access_token_def example_pair_token_def
        zero_Token_def)
  show ?thesis
    using create_expires_at [OF m(1), of example_store 5000 None empty_world]
      create_expires_at [OF m(2), of example_store 5000 None empty_world]
      create_expires_at [OF m(3), of example_store 5000 None empty_world]
      m c a p v
    by simp
qed

subsection \<open>Construction\<close>

lemma token_options_append:
  "apply_TokenStoreOptions (pre @ post) s =
     (case apply_TokenStoreOptions pre s of
        (Some err, s') \<Rightarrow> (Some err, s')
      | (None, s') \<Rightarrow> apply_TokenStoreOptions post s')"
  by (induction pre arbitrary: s) (auto split: prod.splits option.splits)

lemma client_options_append:
  "apply_ClientStoreOptions (pre @ post) s =
     (case apply_ClientStoreOptions pre s of
        (Some err, s') \<Rightarrow> (Some err, s')
      | (None, s') \<Rightarrow> apply_ClientStoreOptions post s')"
  by (induction pre arbitrary: s) (auto split: prod.splits option.splits)

text \<open>
  C8. Both constructors run the options in the order given, each on the store the
  earlier ones left. When the options before one have all succeeded and that one fails,
  the constructor returns a nil store and that option's error, whatever options follow it
  (they are not run). The three failures an option of the package can have are the empty
  table name, the nil pool and the nil logger, each with its own error.
\<close>

theorem first_failing_option_aborts:
  "(apply_TokenStoreOptions pre new_TokenStore = (None, s1) \<and> opt s1 = (Some err, s2) \<longrightarrow>
      NewTokenStore (pre @ opt # post) = (None, Some err)) \<and>
   (apply_ClientStoreOptions cpre new_ClientStore = (None, c1) \<and> copt c1 = (Some cerr, c2) \<longrightarrow>
      NewClientStore (cpre @ copt # cpost) = (None, Some cerr)) \<and>
   WithTokenStoreTable '''' s = (Some ErrNoTable, s) \<and>
   WithTokenStoreConnPool None s = (Some ErrNoConnPool, s) \<and>
   WithTokenStoreLogger None s = (Some ErrNoLogger, s) \<and>
   WithClientStoreTable '''' c = (Some ErrNoTable, c) \<and>
   WithClientStoreConnPool None c = (Some ErrNoConnPool, c) \<and>
   WithClientStoreLogger None c = (Some ErrNoLogger, c)"
  by (simp add: NewTokenStore_def NewClientStore_def token_options_append client_options_append
      WithTokenStoreTable_def WithTokenStoreConnPool_def WithTokenStoreLogger_def
      WithClientStoreTable_def WithClientStoreConnPool_def WithClientStoreLogger_def)

theorem first_failing_option_aborts_witness:
  "apply_TokenStoreOptions [WithTokenStoreCleanupInterval 5] new_TokenStore =
     (None, new_TokenStore\<lparr>cleanupInterval := 5\<rparr>) \<and>
   WithTokenStoreTable '''' (new_TokenStore\<lparr>cleanupInterval := 5\<rparr>) =
     (Some ErrNoTable, new_TokenStore\<lparr>cleanupInterval := 5\<rparr>) \<and>
   NewTokenStore ([WithTokenStoreCleanupInterval 5] @ WithTokenStoreTable '''' #
                  [WithTokenStoreConnPool (Some (Pool 0)), WithTokenStoreLogger None]) =
     (None, Some ErrNoTable) \<and>
   apply_ClientStoreOptions [WithClientStoreTable ''clients''] new_ClientStore =
     (None, new_ClientStore\<lparr>table := ''clients''\<rparr>) \<and>
   WithClientStoreLogger None (new_ClientStore\<lparr>table := ''clients''\<rparr>) =
     (Some ErrNoLogger, new_ClientStore\<lparr>table := ''clients''\<rparr>) \<and>
   NewClientStore ([WithClientStoreTable ''clients''] @ WithClientStoreLogger None #
                   [WithClientStoreConnPool None]) =
     (None, Some ErrNoLogger)"
proof -
  have t1: "apply_TokenStoreOptions [WithTokenStoreCleanupInterval 5] new_TokenStore =
     (None, new_TokenStore\<lparr>cleanupInterval := 5\<rparr>)"
    by (simp add: WithTokenStoreCleanupInterval_def)
  have t2: "WithTokenStoreTable '''' (new_TokenStore\<lparr>cleanupInterval := 5\<rparr>) =
     (Some ErrNoTable, new_TokenStore\<lparr>cleanupInterval := 5\<rparr>)"
    by (simp add: WithTokenStoreTable_def)
  have c1: "apply_ClientStoreOptions [WithClientStoreTable ''clients''] new_ClientStore =
     (None, new_ClientStore\<lparr>table := ''clients''\<rparr>)"
    by (simp add: WithClientStoreTable_def)
  have c2: "WithClientStoreLogger None (new_ClientStore\<lparr>table := ''clients''\<rparr>) =
     (Some ErrNoLogger, new_ClientStore\<lparr>table := ''clients''\<rparr>)"
    by (simp add: WithClientStoreLogger_def)
  show ?thesis
    using first_failing_option_aborts
      [of "[WithTokenStoreCleanupInterval 5]" "new_TokenStore\<lparr>cleanupInterval := 5\<rparr>"
          "WithTokenStoreTable ''''" ErrNoTable "new_TokenStore\<lparr>cleanupInterval := 5\<rparr>"
          "[WithTokenStoreConnPool (Some (Pool 0)), WithTokenStoreLogger None]"
          "[WithClientStoreTable ''clients'']" "new_ClientStore\<lparr>table := ''clients''\<rparr>"
          "WithClientStoreLogger None" ErrNoLogger "new_ClientStore\<lparr>table := ''clients''\<rparr>"
          "[WithClientStoreConnPool None]"]
      t1 t2 c1 c2
    by simp
qed

text \<open>
  The options other than the connection-pool option leave the pool nil, and fail only with
  \<open>ErrNoTable\<close> or \<open>ErrNoLogger\<close>.
\<close>

lemma token_options_keep_pool_nil:
  assumes "set opts \<subseteq> range WithTokenStoreTable \<union> range WithTokenStoreCleanupInterval
             \<union> range WithTokenStoreLogger"
    and "pool s = None"
  shows "case apply_TokenStoreOptions opts s of
           (None, s') \<Rightarrow> pool s' = None
         | (Some err, s') \<Rightarrow> err = ErrNoTable \<or> err = ErrNoLogger"
  using assms
proof (induction opts arbitrary: s)
  case Nil
  then show ?case by simp
next
  case (Cons opt opts)
  from Cons.prems(1) have opt: "opt \<in> range WithTokenStoreTable \<union> range WithTokenStoreCleanupInterval
             \<union> range WithTokenStoreLogger" and rest: "set opts \<subseteq> range WithTokenStoreTable \<union> range WithTokenStoreCleanupInterval
             \<union> range WithTokenStoreLogger" by auto
  from opt Cons.prems(2) have step: "case opt s of (None, s') \<Rightarrow> pool s' = None
         | (Some err, s') \<Rightarrow> err = ErrNoTable \<or> err = ErrNoLogger"
    by (auto simp add: WithTokenStoreTable_def WithTokenStoreCleanupInterval_def
        WithTokenStoreLogger_def split: option.splits if_splits)
  show ?case
  proof (cases "opt s")
    case (Pair r s')
    show ?thesis
    proof (cases r)
      case None
      with Pair step have "pool s' = None" by simp
      from Cons.IH [OF rest this] Pair None show ?thesis by simp
    next
      case (Some err)
      with Pair step show ?thesis by simp
    qed
  qed
qed

lemma client_options_keep_pool_nil:
  assumes "set opts \<subseteq> range WithClientStoreTable \<union> range WithClientStoreLogger"
    and "pool s = None"
  shows "case apply_ClientStoreOptions opts s of
           (None, s') \<Rightarrow> pool s' = None
         | (Some err, s') \<Rightarrow> err = ErrNoTable \<or> err = ErrNoLogger"
  using assms
proof (induction opts arbitrary: s)
  case Nil
  then show ?case by simp
next
  case (Cons opt opts)
  from Cons.prems(1) have opt: "opt \<in> range WithClientStoreTable \<union> range WithClientStoreLogger"
    and rest: "set opts \<subseteq> range WithClientStoreTable \<union> range WithClientStoreLogger" by auto
  from opt Cons.prems(2) have step: "case opt s of (None, s') \<Rightarrow> pool s' = None
         | (Some err, s') \<Rightarrow> err = ErrNoTable \<or> err = ErrNoLogger"
    by (auto simp add: WithClientStoreTable_def WithClientStoreLogger_def
        split: option.splits if_splits)
  show ?case
  proof (cases "opt s")
    case (Pair r s')
    show ?thesis
    proof (cases r)
      case None
      with Pair step have "pool s' = None" by simp
      from Cons.IH [OF rest this] Pair None show ?thesis by simp
    next
      case (Some err)
      with Pair step show ?thesis by simp
    qed
  qed
qed

text \<open>
  C7, as the code has it. Called with options none of which is the connection-pool option,
  \<open>NewTokenStore\<close> and \<open>NewClientStore\<close> return a nil store and a configuration
  error: \<open>ErrNoConnPool\<close> when every option succeeds, and otherwise the error of the
  first failing option (\<open>ErrNoTable\<close> or \<open>ErrNoLogger\<close>).
\<close>

theorem no_pool_option_no_store:
  "(set opts \<subseteq> range WithTokenStoreTable \<union> range WithTokenStoreCleanupInterval
               \<union> range WithTokenStoreLogger \<longrightarrow>
      fst (NewTokenStore opts) = None \<and>
      snd (NewTokenStore opts) =
        (case fst (apply_TokenStoreOptions opts new_TokenStore) of
           None \<Rightarrow> Some ErrNoConnPool
         | Some err \<Rightarrow> Some err) \<and>
      snd (NewTokenStore opts) \<in> {Some ErrNoConnPool, Some ErrNoTable, Some ErrNoLogger}) \<and>
   (set copts \<subseteq> range WithClientStoreTable \<union> range WithClientStoreLogger \<longrightarrow>
      fst (NewClientStore copts) = None \<and>
      snd (NewClientStore copts) =
        (case fst (apply_ClientStoreOptions copts new_ClientStore) of
           None \<Rightarrow> Some ErrNoConnPool
         | Some err \<Rightarrow> Some err) \<and>
      snd (NewClientStore copts) \<in> {Some ErrNoConnPool, Some ErrNoTable, Some ErrNoLogger})"
proof (intro conjI impI)
  assume a: "set opts \<subseteq> range WithTokenStoreTable \<union> range WithTokenStoreCleanupInterval
               \<union> range WithTokenStoreLogger"
  have "pool new_TokenStore = None" by (simp add: new_TokenStore_def)
  from token_options_keep_pool_nil [OF a this]
  show "fst (NewTokenStore opts) = None"
    "snd (NewTokenStore opts) =
        (case fst (apply_TokenStoreOptions opts new_TokenStore) of
           None \<Rightarrow> Some ErrNoConnPool
         | Some err \<Rightarrow> Some err)"
    "snd (NewTokenStore opts) \<in> {Some ErrNoConnPool, Some ErrNoTable, Some ErrNoLogger}"
    by (auto simp add: NewTokenStore_def split: prod.splits option.splits)
next
  assume a: "set copts \<subseteq> range WithClientStoreTable \<union> range WithClientStoreLogger"
  have "pool new_ClientStore = None" by (simp add: new_ClientStore_def)
  from client_options_keep_pool_nil [OF a this]
  show "fst (NewClientStore copts) = None"
    "snd (NewClientStore copts) =
        (case fst (apply_ClientStoreOptions copts new_ClientStore) of
           None \<Rightarrow> Some ErrNoConnPool
         | Some err \<Rightarrow> Some err)"
    "snd (NewClientStore copts) \<in> {Some ErrNoConnPool, Some ErrNoTable, Some ErrNoLogger}"
    by (auto simp add: NewClientStore_def split: prod.splits option.splits)
qed

text \<open>
  The error is not always \<open>ErrNoConnPool\<close>: an empty table name or a nil logger among
  the options is reported first.
\<close>

theorem no_pool_option_counterexample:
  "NewTokenStore [WithTokenStoreTable ''''] = (None, Some ErrNoTable) \<and>
   snd (NewTokenStore [WithTokenStoreTable '''']) \<noteq> Some ErrNoConnPool \<and>
   NewClientStore [WithClientStoreLogger None] = (None, Some ErrNoLogger) \<and>
   snd (NewClientStore [WithClientStoreLogger None]) \<noteq> Some ErrNoConnPool"
  by (simp add: NewTokenStore_def NewClientStore_def WithTokenStoreTable_def
      WithClientStoreLogger_def)

theorem no_pool_option_witness:
  "set [WithTokenStoreTable ''tokens'', WithTokenStoreCleanupInterval 5]
     \<subseteq> range WithTokenStoreTable \<union> range WithTokenStoreCleanupInterval
         \<union> range WithTokenStoreLogger \<and>
   NewTokenStore [WithTokenStoreTable ''tokens'', WithTokenStoreCleanupInterval 5] =
     (None, Some ErrNoConnPool) \<and>
   set [WithClientStoreTable ''clients'', WithClientStoreLogger None]
     \<subseteq> range WithClientStoreTable \<union> range WithClientStoreLogger \<and>
   NewClientStore [WithClientStoreTable ''clients'', WithClientStoreLogger None] =
     (None, Some ErrNoLogger)"
proof -
  have t: "set [WithTokenStoreTable ''tokens'', WithTokenStoreCleanupInterval 5]
     \<subseteq> range WithTokenStoreTable \<union> range WithTokenStoreCleanupInterval
         \<union> range WithTokenStoreLogger" by auto
  have c: "set [WithClientStoreTable ''clients'', WithClientStoreLogger None]
     \<subseteq> range WithClientStoreTable \<union> range WithClientStoreLogger" by auto
  have te: "fst (apply_TokenStoreOptions
      [WithTokenStoreTable ''tokens'', WithTokenStoreCleanupInterval 5] new_TokenStore) = None"
    by (simp add: WithTokenStoreTable_def WithTokenStoreCleanupInterval_def)
  have ce: "fst (apply_ClientStoreOptions
      [WithClientStoreTable ''clients'', WithClientStoreLogger None] new_ClientStore) = Some ErrNoLogger"
    by (simp add: WithClientStoreTable_def WithClientStoreLogger_def)
  show ?thesis
    using no_pool_option_no_store
      [of "[WithTokenStoreTable ''tokens'', WithTokenStoreCleanupInterval 5]"
          "[WithClientStoreTable ''clients'', WithClientStoreLogger None]"] t c te ce
    by (simp add: prod_eq_iff)
qed

subsection \<open>The background sweep\<close>

lemma logged_Log: "logged (Log l m w) = logged w @ [(l, m)]"
  by (simp add: Log_def)

lemma idle_Log: "idle (Log l m w) = idle w"
  by (simp add: Log_def)

lemma clean_blocks: "idle w = 0 \<Longrightarrow> cleanExpiredTokens s now fault w = (Blocks, w)"
  by (simp add: cleanExpiredTokens_def pool_Query_def)

lemma clean_not_blocked:
  "0 < idle w \<Longrightarrow> \<exists>r w1. cleanExpiredTokens s now fault w = (Returns r, w1)"
  by (simp add: cleanExpiredTokens_def pool_Query_def Let_def
      split: option.splits sum.splits prod.splits)

lemma clean_returns:
  assumes "cleanExpiredTokens s now fault w = (Returns r, w1)"
  shows "0 < idle w"
    and "sent w1 = sent w @ [DELETE_WHERE_LE (table s) ''expires_at'' (VTime now)]"
    and "logged w1 = logged w @ [(LogLevelDebug, ''cleaning expired tokens'')]"
    and "r \<noteq> None \<Longrightarrow> db w1 = db w"
    and "r \<noteq> None \<Longrightarrow> idle w1 = idle w"
    and "r = None \<Longrightarrow> idle w1 = idle w - 1"
  using assms
  by (auto simp add: cleanExpiredTokens_def pool_Query_def Let_def Log_def
      split: option.splits sum.splits prod.splits if_splits)

lemma clean_cong:
  "db w = db w' \<Longrightarrow> idle w = idle w' \<Longrightarrow>
   fst (cleanExpiredTokens s now fault w) = fst (cleanExpiredTokens s now fault w')"
  by (simp add: cleanExpiredTokens_def pool_Query_def Let_def
      split: option.splits sum.splits prod.splits)

lemma sweep_append:
  "sweep_loop s (xs @ ys) w =
     (case sweep_loop s xs w of Receiving w0 \<Rightarrow> sweep_loop s ys w0 | g \<Rightarrow> g)"
proof (induction xs arbitrary: w)
  case Nil
  then show ?case by simp
next
  case (Cons tick xs)
  obtain now fault where tick: "tick = (now, fault)" by (cases tick)
  obtain r w1 where c: "cleanExpiredTokens s now fault w = (r, w1)"
    by (cases "cleanExpiredTokens s now fault w")
  show ?case
    using Cons.IH c tick by (cases r) (simp_all split: option.splits)
qed

lemma sweep_fails_cong:
  "db w = db w' \<Longrightarrow> idle w = idle w' \<Longrightarrow> sweep_fails s w tick = sweep_fails s w' tick"
  using clean_cong [of w w' s "fst tick" "snd tick"] by (simp add: sweep_fails_def)

lemma sweep_all_fail:
  "list_all (sweep_fails s w) ticks \<Longrightarrow>
   \<exists>w'. sweep_loop s ticks w = Receiving w' \<and>
        sent w' = sent w @
          map (\<lambda>tick. DELETE_WHERE_LE (table s) ''expires_at'' (VTime (fst tick))) ticks \<and>
        db w' = db w \<and> idle w' = idle w \<and>
        set (logged w) \<subseteq> set (logged w') \<and>
        (\<forall>tick \<in> set ticks. \<forall>err.
           fst (cleanExpiredTokens s (fst tick) (snd tick) w) = Returns (Some err) \<longrightarrow>
           (LogLevelError, Error err) \<in> set (logged w'))"
proof (induction ticks arbitrary: w)
  case Nil
  then show ?case by simp
next
  case (Cons tick ticks)
  obtain now fault where tick: "tick = (now, fault)" by (cases tick)
  from Cons.prems tick have f: "sweep_fails s w (now, fault)"
    and rest: "list_all (sweep_fails s w) ticks" by simp_all
  from f obtain err w1 where c: "cleanExpiredTokens s now fault w = (Returns (Some err), w1)"
    by (cases "cleanExpiredTokens s now fault w")
       (auto simp add: sweep_fails_def split: outcome.splits option.splits)
  let ?w2 = "Log LogLevelError (Error err) w1"
  have d: "db ?w2 = db w" and i: "idle ?w2 = idle w"
    using clean_returns(4,5) [OF c] by (simp_all add: world_Log idle_Log)
  have s2: "sent ?w2 = sent w @ [DELETE_WHERE_LE (table s) ''expires_at'' (VTime now)]"
    using clean_returns(2) [OF c] by (simp add: world_Log)
  have l2: "logged ?w2 = logged w @ [(LogLevelDebug, ''cleaning expired tokens''),
                                     (LogLevelError, Error err)]"
    using clean_returns(3) [OF c] by (simp add: logged_Log)
  have same: "sweep_fails s ?w2 t = sweep_fails s w t" for t
    by (rule sweep_fails_cong [OF d i])
  have same_fst: "fst (cleanExpiredTokens s a b ?w2) = fst (cleanExpiredTokens s a b w)" for a b
    by (rule clean_cong [OF d i])
  have "sweep_fails s ?w2 = sweep_fails s w"
    by (rule ext) (rule same)
  with rest have "list_all (sweep_fails s ?w2) ticks"
    by simp
  from Cons.IH [OF this] obtain w' where
    r: "sweep_loop s ticks ?w2 = Receiving w'"
    and s': "sent w' = sent ?w2 @
          map (\<lambda>tick. DELETE_WHERE_LE (table s) ''expires_at'' (VTime (fst tick))) ticks"
    and d': "db w' = db ?w2" and i': "idle w' = idle ?w2"
    and m': "set (logged ?w2) \<subseteq> set (logged w')"
    and e': "\<forall>tick \<in> set ticks. \<forall>err.
           fst (cleanExpiredTokens s (fst tick) (snd tick) ?w2) = Returns (Some err) \<longrightarrow>
           (LogLevelError, Error err) \<in> set (logged w')"
    by blast
  have "sweep_loop s (tick # ticks) w = Receiving w'"
    using c r tick by simp
  moreover have "sent w' = sent w @
          map (\<lambda>tick. DELETE_WHERE_LE (table s) ''expires_at'' (VTime (fst tick))) (tick # ticks)"
    using s' s2 tick by simp
  moreover have "db w' = db w" "idle w' = idle w"
    using d d' i i' by simp_all
  moreover have "set (logged w) \<subseteq> set (logged w')"
    using m' l2 by auto
  moreover have "\<forall>t \<in> set (tick # ticks). \<forall>e.
           fst (cleanExpiredTokens s (fst t) (snd t) w) = Returns (Some e) \<longrightarrow>
           (LogLevelError, Error e) \<in> set (logged w')"
  proof (intro ballI allI impI)
    fix t e
    assume t: "t \<in> set (tick # ticks)"
      and e: "fst (cleanExpiredTokens s (fst t) (snd t) w) = Returns (Some e)"
    show "(LogLevelError, Error e) \<in> set (logged w')"
    proof (cases "t = tick")
      case True
      with e c tick have "e = err" by simp
      with m' l2 show ?thesis by auto
    next
      case False
      with t have "t \<in> set ticks" by simp
      with e' e same_fst [of "fst t" "snd t"] show ?thesis by simp
    qed
  qed
  ultimately show ?case by blast
qed

text \<open>
  A sweep that succeeds keeps its connection, and with no connection left the goroutine
  waits inside the next sweep and serves no further tick.
\<close>

lemma sweep_success_keeps_connection:
  "cleanExpiredTokens s now fault w = (Returns None, w1) \<Longrightarrow> idle w1 = idle w - 1"
  by (rule clean_returns(6)) simp_all

lemma sweep_waits_without_connection:
  "idle w = 0 \<Longrightarrow> sweep_loop s (tick # ticks) w = Waiting w"
  by (cases tick) (simp add: clean_blocks)

lemma sweep_succeeds:
  assumes "has_token_table s w" and "0 < idle w"
  shows "\<exists>w1. cleanExpiredTokens s now None w = (Returns None, w1) \<and>
              has_token_table s w1 \<and> idle w1 = idle w - 1"
proof -
  from assms(1) obtain tb where tb: "pg_tables (db w) (table s) = Some tb"
    "pg_columns tb = token_columns"
    by (auto simp add: has_token_table_def split: option.splits)
  then show ?thesis
    using assms(2)
    by (simp add: cleanExpiredTokens_def pool_Query_def Let_def Log_def token_col_index
        has_token_table_def)
qed

text \<open>
  On a table that exists and with a pool that works, every sweep succeeds and keeps a
  connection: after as many ticks as the pool had connections the goroutine waits in the
  sweep of the next tick, for ever.
\<close>

lemma sweep_exhausts_pool:
  "has_token_table s w \<Longrightarrow> length ticks = Suc (idle w) \<Longrightarrow>
   list_all (\<lambda>tick. snd tick = None) ticks \<Longrightarrow>
   \<exists>w'. sweep_loop s ticks w = Waiting w'"
proof (induction ticks arbitrary: w)
  case Nil
  then show ?case by simp
next
  case (Cons tick ticks)
  obtain now where tick: "tick = (now, None)"
    using Cons.prems(3) by (cases tick) simp
  show ?case
  proof (cases "idle w")
    case 0
    then show ?thesis by (simp add: sweep_waits_without_connection)
  next
    case (Suc n)
    then have "0 < idle w" by simp
    from sweep_succeeds [OF Cons.prems(1) this, of now]
    obtain w1 where c: "cleanExpiredTokens s now None w = (Returns None, w1)"
      and t: "has_token_table s w1" and i: "idle w1 = idle w - 1"
      by blast
    from Cons.prems(2) i Suc have "length ticks = Suc (idle w1)" by simp
    moreover from Cons.prems(3) have "list_all (\<lambda>tick. snd tick = None) ticks" by simp
    ultimately obtain w' where "sweep_loop s ticks w1 = Waiting w'"
      using Cons.IH [OF t] by blast
    with c tick show ?thesis by simp
  qed
qed

lemma table_InitCleanup: "table (InitCleanup s) = table s"
  by (simp add: InitCleanup_def)

text \<open>
  C9. With a positive interval \<open>InitCleanup\<close> starts the ticker. Let the goroutine have
  served the ticks \<open>before\<close> and be back at the channel, and let the sweep of the next tick
  return an error, whether it comes from the pool or from the database. Then the error is
  logged at error level, after the sweep's own debug line; the goroutine has no caller and
  its state carries no error, so the error reaches nobody else. The database and the
  connections of the pool are as before the sweep, the goroutine is back at the channel
  and goes on with the remaining ticks, and the sweep of the next tick is not kept waiting:
  it returns, having handed its \<open>DELETE\<close> to the pool. So over ticks whose sweeps all
  fail the goroutine never stops: it ends at the channel, with one \<open>DELETE\<close> sent per tick,
  in order, and every error logged.
\<close>

theorem sweep_continues_after_failure:
  assumes "0 < sint (cleanupInterval s)"
    and "sweep_loop (InitCleanup s) before w = Receiving w0"
    and "cleanExpiredTokens (InitCleanup s) now fault w0 = (Returns (Some err), w1)"
  shows
    "cleanupTicker (InitCleanup s) = Some (Ticker (cleanupInterval s) True) \<and>
     logged (Log LogLevelError (Error err) w1) =
       logged w0 @ [(LogLevelDebug, ''cleaning expired tokens''), (LogLevelError, Error err)] \<and>
     db (Log LogLevelError (Error err) w1) = db w0 \<and>
     idle (Log LogLevelError (Error err) w1) = idle w0 \<and>
     sweep_loop (InitCleanup s) (before @ [(now, fault)]) w =
       Receiving (Log LogLevelError (Error err) w1) \<and>
     sweep_loop (InitCleanup s) (before @ (now, fault) # rest) w =
       sweep_loop (InitCleanup s) rest (Log LogLevelError (Error err) w1) \<and>
     (\<exists>r w2. cleanExpiredTokens (InitCleanup s) now' fault'
                (Log LogLevelError (Error err) w1) = (Returns r, w2) \<and>
             sent w2 = sent w0 @ [DELETE_WHERE_LE (table s) ''expires_at'' (VTime now),
                                  DELETE_WHERE_LE (table s) ''expires_at'' (VTime now')]) \<and>
     (list_all (sweep_fails (InitCleanup s) w) ticks \<longrightarrow>
        (\<exists>w'. sweep_loop (InitCleanup s) ticks w = Receiving w' \<and>
              sent w' = sent w @
                map (\<lambda>tick. DELETE_WHERE_LE (table s) ''expires_at'' (VTime (fst tick))) ticks \<and>
              db w' = db w \<and> idle w' = idle w \<and>
              (\<forall>tick \<in> set ticks. \<forall>e.
                 fst (cleanExpiredTokens (InitCleanup s) (fst tick) (snd tick) w) =
                   Returns (Some e) \<longrightarrow>
                 (LogLevelError, Error e) \<in> set (logged w'))))"
proof (intro conjI impI)
  let ?s = "InitCleanup s"
  let ?w2 = "Log LogLevelError (Error err) w1"
  note c = assms(3)
  from assms(1) show "cleanupTicker ?s = Some (Ticker (cleanupInterval s) True)"
    by (simp add: InitCleanup_def)
  show "logged ?w2 =
       logged w0 @ [(LogLevelDebug, ''cleaning expired tokens''), (LogLevelError, Error err)]"
    using clean_returns(3) [OF c] by (simp add: logged_Log)
  show d: "db ?w2 = db w0"
    using clean_returns(4) [OF c] by (simp add: world_Log)
  show i: "idle ?w2 = idle w0"
    using clean_returns(5) [OF c] by (simp add: idle_Log)
  show "sweep_loop ?s (before @ [(now, fault)]) w = Receiving ?w2"
    using assms(2) c by (simp add: sweep_append)
  show "sweep_loop ?s (before @ (now, fault) # rest) w = sweep_loop ?s rest ?w2"
    using assms(2) c by (simp add: sweep_append)
  show "\<exists>r w2. cleanExpiredTokens ?s now' fault' ?w2 = (Returns r, w2) \<and>
             sent w2 = sent w0 @ [DELETE_WHERE_LE (table s) ''expires_at'' (VTime now),
                                  DELETE_WHERE_LE (table s) ''expires_at'' (VTime now')]"
  proof -
    from clean_returns(1) [OF c] i have "0 < idle ?w2" by simp
    from clean_not_blocked [OF this, of ?s now' fault']
    obtain r w2 where n: "cleanExpiredTokens ?s now' fault' ?w2 = (Returns r, w2)" by blast
    have "sent w2 = sent ?w2 @ [DELETE_WHERE_LE (table ?s) ''expires_at'' (VTime now')]"
      by (rule clean_returns(2) [OF n])
    moreover have "sent ?w2 = sent w0 @ [DELETE_WHERE_LE (table ?s) ''expires_at'' (VTime now)]"
      using clean_returns(2) [OF c] by (simp add: world_Log)
    ultimately have "sent w2 = sent w0 @ [DELETE_WHERE_LE (table s) ''expires_at'' (VTime now),
                                  DELETE_WHERE_LE (table s) ''expires_at'' (VTime now')]"
      by (simp add: table_InitCleanup)
    with n show ?thesis by blast
  qed
next
  assume "list_all (sweep_fails (InitCleanup s) w) ticks"
  from sweep_all_fail [OF this]
  show "\<exists>w'. sweep_loop (InitCleanup s) ticks w = Receiving w' \<and>
              sent w' = sent w @
                map (\<lambda>tick. DELETE_WHERE_LE (table s) ''expires_at'' (VTime (fst tick))) ticks \<and>
              db w' = db w \<and> idle w' = idle w \<and>
              (\<forall>tick \<in> set ticks. \<forall>e.
                 fst (cleanExpiredTokens (InitCleanup s) (fst tick) (snd tick) w) =
                   Returns (Some e) \<longrightarrow>
                 (LogLevelError, Error e) \<in> set (logged w'))"
    by (simp only: table_InitCleanup) blast
qed

theorem sweep_continues_witness:
  "0 < sint (cleanupInterval sweeping_store) \<and>
   sweep_loop (InitCleanup sweeping_store) [(10, Some (PoolError ''connection refused''))]
       empty_world =
     Receiving (empty_world
       \<lparr>sent := [DELETE_WHERE_LE ''oauth2_tokens'' ''expires_at'' (VTime 10)],
        logged := [(LogLevelDebug, ''cleaning expired tokens''),
                   (LogLevelError, ''connection refused'')]\<rparr>) \<and>
   cleanExpiredTokens (InitCleanup sweeping_store) 20 None
       (empty_world
          \<lparr>sent := [DELETE_WHERE_LE ''oauth2_tokens'' ''expires_at'' (VTime 10)],
           logged := [(LogLevelDebug, ''cleaning expired tokens''),
                      (LogLevelError, ''connection refused'')]\<rparr>) =
     (Returns (Some (UndefinedTable ''oauth2_tokens'')),
      empty_world
        \<lparr>sent := [DELETE_WHERE_LE ''oauth2_tokens'' ''expires_at'' (VTime 10),
                  DELETE_WHERE_LE ''oauth2_tokens'' ''expires_at'' (VTime 20)],
         logged := [(LogLevelDebug, ''cleaning expired tokens''),
                    (LogLevelError, ''connection refused''),
                    (LogLevelDebug, ''cleaning expired tokens'')]\<rparr>) \<and>
   list_all (sweep_fails (InitCleanup sweeping_store) empty_world)
     [(10, Some (PoolError ''connection refused'')), (20, None), (30, None)] \<and>
   cleanupTicker (InitCleanup sweeping_store) = Some (Ticker 1000000000 True) \<and>
   sweep_loop (InitCleanup sweeping_store)
       [(10, Some (PoolError ''connection refused'')), (20, None), (30, None)] empty_world =
     Receiving (empty_world
       \<lparr>sent := [DELETE_WHERE_LE ''oauth2_tokens'' ''expires_at'' (VTime 10),
                 DELETE_WHERE_LE ''oauth2_tokens'' ''expires_at'' (VTime 20),
                 DELETE_WHERE_LE ''oauth2_tokens'' ''expires_at'' (VTime 30)],
        logged := [(LogLevelDebug, ''cleaning expired tokens''),
                   (LogLevelError, ''connection refused''),
                   (LogLevelDebug, ''cleaning expired tokens''),
                   (LogLevelError, ''relation does not exist: oauth2_tokens''),
                   (LogLevelDebug, ''cleaning expired tokens''),
                   (LogLevelError, ''relation does not exist: oauth2_tokens'')]\<rparr>)"
proof -
  let ?s = "InitCleanup sweeping_store"
  let ?refused = "PoolError ''connection refused''"
  let ?w0 = "empty_world
       \<lparr>sent := [DELETE_WHERE_LE ''oauth2_tokens'' ''expires_at'' (VTime 10)],
        logged := [(LogLevelDebug, ''cleaning expired tokens''),
                   (LogLevelError, ''connection refused'')]\<rparr>"
  let ?w1 = "empty_world
        \<lparr>sent := [DELETE_WHERE_LE ''oauth2_tokens'' ''expires_at'' (VTime 10),
                  DELETE_WHERE_LE ''oauth2_tokens'' ''expires_at'' (VTime 20)],
         logged := [(LogLevelDebug, ''cleaning expired tokens''),
                    (LogLevelError, ''connection refused''),
                    (LogLevelDebug, ''cleaning expired tokens'')]\<rparr>"
  have i: "0 < sint (cleanupInterval sweeping_store)"
    "cleanupInterval sweeping_store = 1000000000"
    "table ?s = ''oauth2_tokens''"
    by (simp_all add: sweeping_store_def example_store_def new_TokenStore_def
        DefaultTokenStoreTable_def InitCleanup_def)
  have c: "cleanExpiredTokens ?s now (Some e) (empty_world\<lparr>sent := ss, logged := ls\<rparr>) =
      (Returns (Some e),
       empty_world\<lparr>sent := ss @ [DELETE_WHERE_LE ''oauth2_tokens'' ''expires_at'' (VTime now)],
                   logged := ls @ [(LogLevelDebug, ''cleaning expired tokens'')]\<rparr>)"
    "cleanExpiredTokens ?s now None (empty_world\<lparr>sent := ss, logged := ls\<rparr>) =
      (Returns (Some (UndefinedTable ''oauth2_tokens'')),
       empty_world\<lparr>sent := ss @ [DELETE_WHERE_LE ''oauth2_tokens'' ''expires_at'' (VTime now)],
                   logged := ls @ [(LogLevelDebug, ''cleaning expired tokens'')]\<rparr>)"
    for now e ss ls
    by (simp_all add: cleanExpiredTokens_def pool_Query_def Let_def Log_def i(3) empty_world_def)
  have e: "empty_world = empty_world\<lparr>sent := [], logged := []\<rparr>"
    by (simp add: empty_world_def)
  have b: "sweep_loop ?s [(10, Some ?refused)] empty_world = Receiving ?w0"
    by (subst e) (simp add: c Log_def)
  have f: "list_all (sweep_fails ?s empty_world) [(10, Some ?refused), (20, None), (30, None)]"
    by (subst e) (simp add: sweep_fails_def c)
  have n: "cleanExpiredTokens ?s 20 None ?w0 = (Returns (Some (UndefinedTable ''oauth2_tokens'')), ?w1)"
    by (simp add: c)
  from sweep_continues_after_failure [OF i(1) b n, of "[(30, None)]" 30 None
      "[(10, Some ?refused), (20, None), (30, None)]"]
  have "sweep_loop ?s ([(10, Some ?refused)] @ [(20, None), (30, None)]) empty_world =
          sweep_loop ?s [(30, None)] (Log LogLevelError (Error (UndefinedTable ''oauth2_tokens'')) ?w1)"
    and "cleanupTicker ?s = Some (Ticker (cleanupInterval sweeping_store) True)"
    by simp_all
  then show ?thesis
    using i(1,2) b f n by (simp add: c Log_def)
qed

subsection \<open>Creating the tables\<close>

lemma init_script_again:
  assumes "pg_tables d t = Some tb" and "pg_columns tb = token_columns"
    and "pg_indexes d (''idx_'' @ t @ ''_code_idx'') \<noteq> None"
    and "pg_indexes d (''idx_'' @ t @ ''_access_idx'') \<noteq> None"
    and "pg_indexes d (''idx_'' @ t @ ''_refresh_idx'') \<noteq> None"
    and "pg_indexes d (''idx_'' @ t @ ''_expires_idx'') \<noteq> None"
  shows "run_script d (token_table_script t) = Inr (d, [])"
  using assms by (auto simp add: token_table_script_def token_columns_ok token_col_index)

lemma init_script_first:
  assumes "pg_tables d t = None"
  shows "\<exists>d' tb. run_script d (token_table_script t) = Inr (d', []) \<and>
           pg_tables d' t = Some tb \<and> pg_columns tb = token_columns \<and> pg_rows tb = [] \<and>
           pg_indexes d' (''idx_'' @ t @ ''_code_idx'') \<noteq> None \<and>
           pg_indexes d' (''idx_'' @ t @ ''_access_idx'') \<noteq> None \<and>
           pg_indexes d' (''idx_'' @ t @ ''_refresh_idx'') \<noteq> None \<and>
           pg_indexes d' (''idx_'' @ t @ ''_expires_idx'') \<noteq> None"
  using assms by (simp add: token_table_script_def token_columns_ok token_col_index)

text \<open>
  The token store's \<open>InitTable\<close> on a database without the table: the first call
  creates the table and the four indexes, the second succeeds and changes nothing.
\<close>

lemma token_InitTable_twice:
  assumes "pg_tables (db w) (table s) = None"
  shows "\<exists>w1. TokenStore_InitTable s None w = (None, w1) \<and> has_token_table s w1 \<and>
              fst (TokenStore_InitTable s None w1) = None \<and>
              db (snd (TokenStore_InitTable s None w1)) = db w1"
proof -
  from init_script_first [OF assms] obtain d' tb where
    r: "run_script (db w) (token_table_script (table s)) = Inr (d', [])"
    and t: "pg_tables d' (table s) = Some tb" "pg_columns tb = token_columns"
    and i: "pg_indexes d' (''idx_'' @ table s @ ''_code_idx'') \<noteq> None"
      "pg_indexes d' (''idx_'' @ table s @ ''_access_idx'') \<noteq> None"
      "pg_indexes d' (''idx_'' @ table s @ ''_refresh_idx'') \<noteq> None"
      "pg_indexes d' (''idx_'' @ table s @ ''_expires_idx'') \<noteq> None"
    by blast
  define w1 where "w1 = snd (TokenStore_InitTable s None w)"
  from r have first: "TokenStore_InitTable s None w = (None, w1)" and d: "db w1 = d'"
    by (simp_all add: w1_def TokenStore_InitTable_def pool_Exec_def Let_def world_Log)
  from init_script_again [OF t i] d
  have again: "run_script (db w1) (token_table_script (table s)) = Inr (db w1, [])" by simp
  have "fst (TokenStore_InitTable s None w1) = None"
    "db (snd (TokenStore_InitTable s None w1)) = db w1"
    using again by (simp_all add: TokenStore_InitTable_def pool_Exec_def Let_def world_Log)
  moreover have "has_token_table s w1" using t d by (simp add: has_token_table_def)
  ultimately show ?thesis using first by blast
qed

text \<open>
  C5 (the code departs from it). The column list of \<open>ClientStore.InitTable\<close> has no
  comma after the line of \<open>data\<close> and one after the last line: the database rejects the
  script as a syntax error. In every world the call returns that error and creates
  nothing, the first time and the second.
\<close>

theorem client_InitTable_always_fails:
  "fst (ClientStore_InitTable s None w) = Some (SyntaxError (table s)) \<and>
   db (snd (ClientStore_InitTable s None w)) = db w \<and>
   fst (ClientStore_InitTable s None (snd (ClientStore_InitTable s None w))) =
     Some (SyntaxError (table s))"
proof -
  have r: "run_script d (client_table_script (table s)) = Inl (SyntaxError (table s))" for d
    by (simp add: client_table_script_def client_columns_bad)
  have one: "fst (ClientStore_InitTable s None w0) = Some (SyntaxError (table s))"
    "db (snd (ClientStore_InitTable s None w0)) = db w0" for w0
    by (simp_all add: ClientStore_InitTable_def pool_Exec_def Let_def r world_Log)
  show ?thesis by (simp add: one)
qed

subsection \<open>Reading a client\<close>

lemma client_Create_example:
  "fst (ClientStore_Create lib example_client_store 1000 None example_client client_world) = None"
  "pg_tables (db (snd (ClientStore_Create lib example_client_store 1000 None example_client
                        client_world))) ''oauth2_clients''
     = Some \<lparr>pg_columns = client_columns,
              pg_rows = [[VText ''client-1'', VText ''s3cret'', VText ''https://example.org'',
                          VJson (projr (json_Marshal_Client lib example_client)), VTime 1000]],
              pg_serial = 1\<rparr>"
  by (simp_all add: next_serial_def ClientStore_Create_def json_Marshal_Client_def example_client_store_def
      new_ClientStore_def DefaultClientStoreTable_def example_client_def client_world_def
      pool_Exec_def Let_def world_Log Log_def client_columns_def and_then_def pk_clash_def
      cell_eq_def)

lemma GetByID_fault: "fst (GetByID s (Some e) key w) = Inl e"
  by (simp add: GetByID_def pool_QueryRow_def Let_def scanToClientInfo_def first_row_def
      and_then_def)

lemma GetByID_not_found:
  assumes "pg_tables (db w) (table s) = Some tb" and "pg_columns tb = client_columns"
    and "filter (cell_eq 0 (VText key)) (pg_rows tb) = []"
  shows "fst (GetByID s None key w) = Inl ErrNoRows"
  using assms
  by (simp add: GetByID_def pool_QueryRow_def Let_def scanToClientInfo_def first_row_def
      and_then_def world_Log client_columns_def)

lemma scanToClientInfo_no_client: "fst (scanToClientInfo s row w) \<noteq> Inr (Some c)"
  by (auto simp add: scanToClientInfo_def json_Unmarshal_ClientInfo_def
      split: sum.splits jvalue.splits)

text \<open>
  C2 (the code departs from it). \<open>GetByID\<close> on the row \<open>Create\<close> stored for the
  client \<open>client-1\<close> returns an error, whatever \<open>encoding/json\<close> made of the
  client's strings: \<open>Scan\<close> has an \<open>int64\<close> destination for the text column
  \<open>id\<close>. Past the scan, the document \<open>Create\<close> stores for any client is an
  object, which \<open>json.Unmarshal\<close> refuses for the nil \<open>oauth2.ClientInfo\<close> it is given.
  So in no world, for no key and no answer of the pool, does \<open>GetByID\<close> return a client.
  The lemmas before it are the parts that hold: a failure of the pool is returned, and no
  matching row is \<open>pgx.ErrNoRows\<close>.
\<close>

theorem GetByID_returns_no_client:
  "fst (GetByID example_client_store None ''client-1''
          (snd (ClientStore_Create lib example_client_store 1000 None example_client client_world)))
     = Inl (ScanError ''*int64'') \<and>
   json_Unmarshal_ClientInfo (projr (json_Marshal_Client lib info))
     = Inl (UnmarshalTypeError ''oauth2.ClientInfo'') \<and>
   fst (GetByID s fault key w) \<noteq> Inr (Some c)"
proof (intro conjI)
  let ?w = "snd (ClientStore_Create lib example_client_store 1000 None example_client client_world)"
  have t: "table example_client_store = ''oauth2_clients''"
    by (simp add: example_client_store_def new_ClientStore_def DefaultClientStoreTable_def)
  have i: "col_index (map col_name client_columns) ''id'' = Some 0"
    by (simp add: client_columns_def)
  show "fst (GetByID example_client_store None ''client-1'' ?w) = Inl (ScanError ''*int64'')"
    by (simp add: GetByID_def pool_QueryRow_def Let_def world_Log t client_Create_example(2) i
        cell_eq_def scanToClientInfo_def first_row_def and_then_def Scan_ClientStoreItem_def
        scan_int64_def)
  show "json_Unmarshal_ClientInfo (projr (json_Marshal_Client lib info))
     = Inl (UnmarshalTypeError ''oauth2.ClientInfo'')"
    by (simp add: json_Marshal_Client_def json_Unmarshal_ClientInfo_def)
  show "fst (GetByID s fault key w) \<noteq> Inr (Some c)"
    by (simp add: GetByID_def scanToClientInfo_no_client split: prod.splits)
qed

subsection \<open>Marshalling and scanning\<close>

lemma folded_names:
  "fold_name ''ClientID'' = ''CLIENTID''"
  "fold_name ''UserID'' = ''USERID''"
  "fold_name ''RedirectURI'' = ''REDIRECTURI''"
  "fold_name ''Scope'' = ''SCOPE''"
  "fold_name ''Code'' = ''CODE''"
  "fold_name ''CodeChallenge'' = ''CODECHALLENGE''"
  "fold_name ''CodeChallengeMethod'' = ''CODECHALLENGEMETHOD''"
  "fold_name ''CodeCreateAt'' = ''CODECREATEAT''"
  "fold_name ''CodeExpiresIn'' = ''CODEEXPIRESIN''"
  "fold_name ''Access'' = ''ACCESS''"
  "fold_name ''AccessCreateAt'' = ''ACCESSCREATEAT''"
  "fold_name ''AccessExpiresIn'' = ''ACCESSEXPIRESIN''"
  "fold_name ''Refresh'' = ''REFRESH''"
  "fold_name ''RefreshCreateAt'' = ''REFRESHCREATEAT''"
  "fold_name ''RefreshExpiresIn'' = ''REFRESHEXPIRESIN''"
  by (simp_all add: upper_def)

lemma members_Cons:
  "members ((k, v) # kvs) name =
     (if fold_name k = fold_name name then v # members kvs name else members kvs name)"
  "members [] name = []"
  by (simp_all add: members_def)

lemma duration_in_range: "- (2 ^ 63) \<le> sint d \<and> sint d < 2 ^ 63" for d :: duration
  using sint_ge [of d] sint_lt [of d] by simp

lemma read_one:
  "assign read_string name cur [JString s] = Inr s"
  "assign read_time name cur' [JTime t] = Inr t"
  "assign read_duration name cur'' [JNumber (sint d)] = Inr d"
  for d :: duration
  using duration_in_range [of d]
  by (simp_all add: read_string_def read_time_def read_duration_def)

text \<open>
  The document \<open>json.Marshal\<close> writes for a token whose strings and times the library
  keeps as they are unmarshals to the same token.
\<close>

lemma json_roundtrip:
  assumes m: "json_Marshal_Token lib info = Inr data" and x: "json_exact lib info"
  shows "json_Unmarshal_Token data = Inr info"
proof -
  from x have s: "json_String lib (GetClientID info) = GetClientID info"
    "json_String lib (GetUserID info) = GetUserID info"
    "json_String lib (GetRedirectURI info) = GetRedirectURI info"
    "json_String lib (GetScope info) = GetScope info"
    "json_String lib (GetCode info) = GetCode info"
    "json_String lib (GetCodeChallenge info) = GetCodeChallenge info"
    "json_String lib (GetCodeChallengeMethod info) = GetCodeChallengeMethod info"
    "json_String lib (GetAccess info) = GetAccess info"
    "json_String lib (GetRefresh info) = GetRefresh info"
    and t: "json_Time lib (GetCodeCreateAt info) = Inr (GetCodeCreateAt info)"
    "json_Time lib (GetAccessCreateAt info) = Inr (GetAccessCreateAt info)"
    "json_Time lib (GetRefreshCreateAt info) = Inr (GetRefreshCreateAt info)"
    by (simp_all add: json_exact_def)
  from m have d: "data = JObject
         [(''ClientID'', JString (GetClientID info)),
          (''UserID'', JString (GetUserID info)),
          (''RedirectURI'', JString (GetRedirectURI info)),
          (''Scope'', JString (GetScope info)),
          (''Code'', JString (GetCode info)),
          (''CodeChallenge'', JString (GetCodeChallenge info)),
          (''CodeChallengeMethod'', JString (GetCodeChallengeMethod info)),
          (''CodeCreateAt'', JTime (GetCodeCreateAt info)),
          (''CodeExpiresIn'', JNumber (sint (GetCodeExpiresIn info))),
          (''Access'', JString (GetAccess info)),
          (''AccessCreateAt'', JTime (GetAccessCreateAt info)),
          (''AccessExpiresIn'', JNumber (sint (GetAccessExpiresIn info))),
          (''Refresh'', JString (GetRefresh info)),
          (''RefreshCreateAt'', JTime (GetRefreshCreateAt info)),
          (''RefreshExpiresIn'', JNumber (sint (GetRefreshExpiresIn info)))]"
    by (simp add: json_Marshal_Token_def and_then_def s t)
  show ?thesis
    unfolding d json_Unmarshal_Token_def Token_of_object_def string_field_def time_field_def
      duration_field_def
    by (simp add: members_Cons folded_names read_one and_then_def
        del: fold_name.simps assign.simps)
qed

text \<open>
  A member whose name differs from the field's in case only is read into the field, and
  of two members for one field the later one stays.
\<close>

lemma members_fold_case:
  "string_field [(''code'', JString ''x''), (''CODE'', JNull), (''Code'', JString ''y'')] ''Code''
     = Inr ''y''"
  by (simp add: string_field_def members_def upper_def read_string_def)

lemma assign_found: "assign rd name cur vs \<noteq> Inl ErrNoRows"
  by (induction rd name cur vs rule: assign.induct) (simp_all split: option.splits)

lemma scanToTokenInfo_fst:
  "fst (scanToTokenInfo s row w) = and_then (first_row row) decode_row"
  by (simp add: scanToTokenInfo_def decode_row_def and_then_def split: sum.splits)

lemma scan_found:
  "scan_int64 v \<noteq> Inl ErrNoRows" "scan_string v \<noteq> Inl ErrNoRows"
  "scan_bytes v \<noteq> Inl ErrNoRows" "scan_time v \<noteq> Inl ErrNoRows"
  by (simp_all add: scan_int64_def scan_string_def scan_bytes_def scan_time_def
      split: sqlval.splits)

lemma Scan_TokenStoreItem_found: "Scan_TokenStoreItem r \<noteq> Inl ErrNoRows"
  by (auto simp add: Scan_TokenStoreItem_def and_then_def scan_found
      split: list.splits sum.splits)

lemma field_found:
  "string_field kvs k \<noteq> Inl ErrNoRows" "time_field kvs k \<noteq> Inl ErrNoRows"
  "duration_field kvs k \<noteq> Inl ErrNoRows"
  by (simp_all add: string_field_def time_field_def duration_field_def assign_found)

lemma Token_of_object_found: "Token_of_object kvs \<noteq> Inl ErrNoRows"
  by (auto simp add: Token_of_object_def and_then_def field_found split: sum.splits)

lemma json_Unmarshal_Token_found: "json_Unmarshal_Token j \<noteq> Inl ErrNoRows"
  by (simp add: json_Unmarshal_Token_def Token_of_object_found split: jvalue.splits)

lemma decode_row_found: "decode_row r \<noteq> Inl ErrNoRows"
  using Scan_TokenStoreItem_found [of r]
  by (auto simp add: decode_row_def and_then_def json_Unmarshal_Token_found split: sum.splits)

subsection \<open>Lookups and inserts on the token table\<close>

text \<open>
  A lookup returns the decoding of the first row of its query, the rows whose key column
  holds the key, or \<open>pgx.ErrNoRows\<close> when there is none.
\<close>

lemma lookup_rows:
  assumes "pg_tables (db w) (table s) = Some tb" and "pg_columns tb = token_columns"
  shows "fst (GetByCode s None k w) =
           and_then (first_row (Inr (filter (cell_eq 1 (VText k)) (pg_rows tb)))) decode_row"
    and "fst (GetByAccess s None k w) =
           and_then (first_row (Inr (filter (cell_eq 2 (VText k)) (pg_rows tb)))) decode_row"
    and "fst (GetByRefresh s None k w) =
           and_then (first_row (Inr (filter (cell_eq 3 (VText k)) (pg_rows tb)))) decode_row"
  using assms
  by (simp_all add: GetByCode_def GetByAccess_def GetByRefresh_def pool_QueryRow_def Let_def
      scanToTokenInfo_fst world_Log token_col_index split: prod.splits)

lemma build_token_row:
  "build_row token_columns
     (map_of (zip [''code'', ''access_token'', ''refresh_token'', ''data'', ''created_at'',
                   ''expires_at'']
                  [VText c, VText a, VText r, VJson j, VTime t, VTime e])) seq =
   (if - (2 ^ 63) \<le> seq \<and> seq < 2 ^ 63
    then Inr [VInt seq, VText c, VText a, VText r, VJson j, VTime t, VTime e]
    else Inl (SequenceLimit ''id''))"
  by (simp add: token_columns_def and_then_def)

lemma insert_columns_known:
  "list_all (\<lambda>c. col_index (map col_name token_columns) c \<noteq> None)
     [''code'', ''access_token'', ''refresh_token'', ''data'', ''created_at'', ''expires_at'']"
  by (simp add: token_columns_def)

lemma run_insert_general:
  assumes "pg_tables d t = Some tb" and "length cols = length vals"
    and "list_all (\<lambda>c. col_index (map col_name (pg_columns tb)) c \<noteq> None) cols"
  shows "run d (INSERT_INTO t cols vals) =
     (case build_row (pg_columns tb) (map_of (zip cols vals)) (pg_serial tb) of
        Inl e \<Rightarrow> Inl e
      | Inr r \<Rightarrow>
          (if pk_clash (pg_columns tb) (pg_rows tb) r then Inl (UniqueViolation t)
           else Inr (d\<lparr>pg_tables := (pg_tables d)(t \<mapsto>
                       tb\<lparr>pg_rows := pg_rows tb @ [r],
                          pg_serial := next_serial tb cols\<rparr>)\<rparr>, [])))"
  using assms by simp

lemma run_insert_token:
  assumes "pg_tables d t = Some tb" and "pg_columns tb = token_columns"
  shows "run d (Create_insert t item) =
     (if - (2 ^ 63) \<le> pg_serial tb \<and> pg_serial tb < 2 ^ 63
      then (if pk_clash token_columns (pg_rows tb)
                 [VInt (pg_serial tb), VText (Code item), VText (Access item),
                  VText (Refresh item), VJson (Data item), VTime (CreatedAt item),
                  VTime (ExpiresAt item)]
            then Inl (UniqueViolation t)
            else Inr (d\<lparr>pg_tables := (pg_tables d)(t \<mapsto>
                        tb\<lparr>pg_rows := pg_rows tb @
                             [[VInt (pg_serial tb), VText (Code item), VText (Access item),
                               VText (Refresh item), VJson (Data item), VTime (CreatedAt item),
                               VTime (ExpiresAt item)]],
                           pg_serial := pg_serial tb + 1\<rparr>)\<rparr>, []))
      else Inl (SequenceLimit ''id''))"
proof -
  have known: "list_all (\<lambda>c. col_index (map col_name (pg_columns tb)) c \<noteq> None)
     [''code'', ''access_token'', ''refresh_token'', ''data'', ''created_at'', ''expires_at'']"
    using insert_columns_known assms(2) by simp
  have len: "length [''code'', ''access_token'', ''refresh_token'', ''data'', ''created_at'',
      ''expires_at''] = length [VText (Code item), VText (Access item), VText (Refresh item),
        VJson (Data item), VTime (CreatedAt item), VTime (ExpiresAt item)]"
    by simp
  have advanced: "next_serial tb [''code'', ''access_token'', ''refresh_token'', ''data'',
      ''created_at'', ''expires_at''] = pg_serial tb + 1"
    by (simp add: next_serial_def assms(2) token_columns_def)
  show ?thesis
    unfolding Create_insert_def run_insert_general [OF assms(1) len known] assms(2)
      build_token_row advanced
    by simp
qed

lemma Create_marshalled:
  "TokenStore_Create lib s now fault info w = (None, w1) \<Longrightarrow>
   \<exists>data. json_Marshal_Token lib info = Inr data"
  by (cases "json_Marshal_Token lib info") (simp_all add: TokenStore_Create_def Let_def)

text \<open>
  A \<open>Create\<close> that returns nil has appended one row: the next value of the sequence as
  \<open>id\<close>, then the six parameters of the \<open>INSERT\<close>.
\<close>

lemma Create_stores:
  assumes tb: "pg_tables (db w) (table s) = Some tb" "pg_columns tb = token_columns"
    and ok: "TokenStore_Create lib s now None info w = (None, w1)"
    and m: "json_Marshal_Token lib info = Inr data"
  shows "pg_tables (db w1) (table s) =
           Some (tb\<lparr>pg_rows := pg_rows tb @
                   [[VInt (pg_serial tb), VText (Code (Create_item now data info)),
                     VText (Access (Create_item now data info)),
                     VText (Refresh (Create_item now data info)),
                     VJson data, VTime now, VTime (ExpiresAt (Create_item now data info))]],
                   pg_serial := pg_serial tb + 1\<rparr>)"
    and "- (2 ^ 63) \<le> pg_serial tb \<and> pg_serial tb < 2 ^ 63"
proof -
  let ?item = "Create_item now data info"
  let ?st = "Create_insert (table s) ?item"
  let ?w0 = "Log LogLevelDebug ''creating token'' w"
  have fields: "Data ?item = data" "CreatedAt ?item = now"
    by (simp_all add: Create_item_def Let_def)
  obtain err w' where p: "pool_Exec None [?st] ?w0 = (err, w')"
    by (cases "pool_Exec None [?st] ?w0")
  with ok m have e: "err = None" and w1: "db w1 = db w'"
    by (auto simp add: TokenStore_Create_def Let_def world_Log split: option.splits)
  from p e have r: "\<exists>d. run (db w) ?st = Inr (d, []) \<and> db w' = d"
    by (cases "run (db w) ?st")
       (auto simp add: pool_Exec_def Let_def world_Log run_insert_token [OF tb]
        split: if_splits simp del: run.simps)
  then obtain d where r: "run (db w) ?st = Inr (d, [])" and d: "db w' = d" by blast
  from r show "- (2 ^ 63) \<le> pg_serial tb \<and> pg_serial tb < 2 ^ 63"
    by (simp add: run_insert_token [OF tb] split: if_splits)
  from r have "pg_tables d (table s) =
           Some (tb\<lparr>pg_rows := pg_rows tb @
                   [[VInt (pg_serial tb), VText (Code ?item), VText (Access ?item),
                     VText (Refresh ?item), VJson data, VTime now, VTime (ExpiresAt ?item)]],
                   pg_serial := pg_serial tb + 1\<rparr>)"
    by (auto simp add: run_insert_token [OF tb] fields split: if_splits)
  with w1 d show "pg_tables (db w1) (table s) =
           Some (tb\<lparr>pg_rows := pg_rows tb @
                   [[VInt (pg_serial tb), VText (Code ?item), VText (Access ?item),
                     VText (Refresh ?item), VJson data, VTime now, VTime (ExpiresAt ?item)]],
                   pg_serial := pg_serial tb + 1\<rparr>)"
    by simp
qed

lemma decode_created_row:
  assumes "json_Marshal_Token lib info = Inr data" and "json_exact lib info"
    and "- (2 ^ 63) \<le> i \<and> i < 2 ^ 63"
  shows "decode_row [VInt i, VText c, VText a, VText r, VJson data, VTime n, VTime e] = Inr info"
  using assms(3) json_roundtrip [OF assms(1,2)]
  by (simp add: decode_row_def Scan_TokenStoreItem_def and_then_def scan_int64_def
      scan_string_def scan_bytes_def scan_time_def)

lemma Create_item_keys:
  "GetCode info \<noteq> '''' \<Longrightarrow> Code (Create_item now data info) = GetCode info"
  "GetCode info \<noteq> '''' \<Longrightarrow> Access (Create_item now data info) = ''''"
  "GetCode info \<noteq> '''' \<Longrightarrow> Refresh (Create_item now data info) = ''''"
  "GetCode info = '''' \<Longrightarrow> Code (Create_item now data info) = ''''"
  "GetCode info = '''' \<Longrightarrow> Access (Create_item now data info) = GetAccess info"
  "GetCode info = '''' \<Longrightarrow> Refresh (Create_item now data info) = GetRefresh info"
  by (simp_all add: Create_item_def Let_def)

lemma first_row_filter:
  "and_then (first_row (Inr (filter P rows))) decode_row = Inl ErrNoRows \<Longrightarrow> filter P rows = []"
  using decode_row_found
  by (cases "filter P rows") (auto simp add: first_row_def and_then_def)

lemma first_row_new:
  assumes "filter P rows = []" and "P r"
  shows "and_then (first_row (Inr (filter P (rows @ [r])))) decode_row = decode_row r"
  using assms by (simp add: first_row_def and_then_def)

lemma first_row_some:
  assumes "r \<in> set rows" and "P r"
  shows "\<exists>r'. r' \<in> set rows \<and> P r' \<and>
           and_then (first_row (Inr (filter P rows))) decode_row = decode_row r'"
proof (cases "filter P rows")
  case Nil
  with assms show ?thesis by (auto simp add: filter_empty_conv)
next
  case (Cons r' rest)
  then have "r' \<in> set (filter P rows)" by simp
  then have "r' \<in> set rows" "P r'" by simp_all
  with Cons show ?thesis by (auto simp add: first_row_def and_then_def)
qed

subsection \<open>Create, then look up\<close>

text \<open>
  C6, as the code has it. Take a token that the library writes into the document as it is
  (\<open>json_exact\<close>: its strings are valid UTF-8, its times have a year from 0 to 9999 and a
  zone offset of whole minutes). On a table with the columns of \<open>InitTable\<close>, after a
  \<open>Create\<close> of it that returned nil, the lookup by the key the row is stored under
  returns the token that was created, every field of it: \<open>GetByCode\<close> with the code when
  the code is non-empty; when the code is empty, \<open>GetByAccess\<close> with a non-empty access
  token and \<open>GetByRefresh\<close> with a non-empty refresh token. This is for a key no earlier
  row carries: the same lookup found no row before the \<open>Create\<close>.
\<close>

theorem lookup_after_create:
  assumes "has_token_table s w" and "TokenStore_Create lib s now None info w = (None, w1)"
    and "json_exact lib info"
  shows "(GetCode info \<noteq> '''' \<and> fst (GetByCode s None (GetCode info) w) = Inl ErrNoRows \<longrightarrow>
            fst (GetByCode s None (GetCode info) w1) = Inr info) \<and>
         (GetCode info = '''' \<and> GetAccess info \<noteq> '''' \<and>
          fst (GetByAccess s None (GetAccess info) w) = Inl ErrNoRows \<longrightarrow>
            fst (GetByAccess s None (GetAccess info) w1) = Inr info) \<and>
         (GetCode info = '''' \<and> GetRefresh info \<noteq> '''' \<and>
          fst (GetByRefresh s None (GetRefresh info) w) = Inl ErrNoRows \<longrightarrow>
            fst (GetByRefresh s None (GetRefresh info) w1) = Inr info)"
proof -
  from assms(1) obtain tb where tb: "pg_tables (db w) (table s) = Some tb"
    "pg_columns tb = token_columns"
    by (auto simp add: has_token_table_def split: option.splits)
  from Create_marshalled [OF assms(2)]
  obtain data where m: "json_Marshal_Token lib info = Inr data"
    by blast
  let ?item = "Create_item now data info"
  let ?row = "[VInt (pg_serial tb), VText (Code ?item), VText (Access ?item),
               VText (Refresh ?item), VJson data, VTime now, VTime (ExpiresAt ?item)]"
  let ?tb1 = "tb\<lparr>pg_rows := pg_rows tb @ [?row], pg_serial := pg_serial tb + 1\<rparr>"
  from Create_stores [OF tb assms(2) m]
  have tb1: "pg_tables (db w1) (table s) = Some ?tb1"
    and range: "- (2 ^ 63) \<le> pg_serial tb \<and> pg_serial tb < 2 ^ 63"
    by simp_all
  have cols1: "pg_columns ?tb1 = token_columns" using tb(2) by simp
  have dec: "decode_row ?row = Inr info"
    by (rule decode_created_row [OF m assms(3) range])
  have by_code: "fst (GetByCode s None (GetCode info) w1) = Inr info"
    if "GetCode info \<noteq> ''''" "fst (GetByCode s None (GetCode info) w) = Inl ErrNoRows"
  proof -
    from that(2) have f: "filter (cell_eq 1 (VText (GetCode info))) (pg_rows tb) = []"
      unfolding lookup_rows(1) [OF tb] by (rule first_row_filter)
    have c: "cell_eq 1 (VText (GetCode info)) ?row"
      using that(1) by (simp add: cell_eq_def Create_item_keys)
    have "fst (GetByCode s None (GetCode info) w1) =
            and_then (first_row (Inr (filter (cell_eq 1 (VText (GetCode info)))
                                        (pg_rows tb @ [?row])))) decode_row"
      using lookup_rows(1) [OF tb1 cols1] by simp
    also have "\<dots> = decode_row ?row"
      by (rule first_row_new [OF f c])
    finally show ?thesis using dec by simp
  qed
  have by_access: "fst (GetByAccess s None (GetAccess info) w1) = Inr info"
    if "GetCode info = ''''" "fst (GetByAccess s None (GetAccess info) w) = Inl ErrNoRows"
  proof -
    from that(2) have f: "filter (cell_eq 2 (VText (GetAccess info))) (pg_rows tb) = []"
      unfolding lookup_rows(2) [OF tb] by (rule first_row_filter)
    have c: "cell_eq 2 (VText (GetAccess info)) ?row"
      using that(1) by (simp add: cell_eq_def Create_item_keys)
    have "fst (GetByAccess s None (GetAccess info) w1) =
            and_then (first_row (Inr (filter (cell_eq 2 (VText (GetAccess info)))
                                        (pg_rows tb @ [?row])))) decode_row"
      using lookup_rows(2) [OF tb1 cols1] by simp
    also have "\<dots> = decode_row ?row"
      by (rule first_row_new [OF f c])
    finally show ?thesis using dec by simp
  qed
  have by_refresh: "fst (GetByRefresh s None (GetRefresh info) w1) = Inr info"
    if "GetCode info = ''''" "fst (GetByRefresh s None (GetRefresh info) w) = Inl ErrNoRows"
  proof -
    from that(2) have f: "filter (cell_eq 3 (VText (GetRefresh info))) (pg_rows tb) = []"
      unfolding lookup_rows(3) [OF tb] by (rule first_row_filter)
    have c: "cell_eq 3 (VText (GetRefresh info)) ?row"
      using that(1) by (simp add: cell_eq_def Create_item_keys)
    have "fst (GetByRefresh s None (GetRefresh info) w1) =
            and_then (first_row (Inr (filter (cell_eq 3 (VText (GetRefresh info)))
                                        (pg_rows tb @ [?row])))) decode_row"
      using lookup_rows(3) [OF tb1 cols1] by simp
    also have "\<dots> = decode_row ?row"
      by (rule first_row_new [OF f c])
    finally show ?thesis using dec by simp
  qed
  from by_code by_access by_refresh show ?thesis by blast
qed

subsection \<open>Lookup with an empty key\<close>

text \<open>
  C10. The lookups have no guard for the empty key. When the table holds a row whose
  \<open>code\<close> column is the empty string, \<open>GetByCode("")\<close> does not return
  \<open>pgx.ErrNoRows\<close>: it returns the decoding of such a row,
  and likewise \<open>GetByAccess("")\<close> and \<open>GetByRefresh("")\<close> for the columns
  \<open>access_token\<close> and \<open>refresh_token\<close>. For a row that \<open>Create\<close> stored the decoding
  is the token (\<open>decode_created_row\<close>).
\<close>

theorem lookup_by_empty_key_matches:
  assumes "pg_tables (db w) (table s) = Some tb" and "pg_columns tb = token_columns"
    and "r \<in> set (pg_rows tb)"
  shows "(cell_eq 1 (VText '''') r \<longrightarrow>
            fst (GetByCode s None '''' w) \<noteq> Inl ErrNoRows \<and>
            (\<exists>r'. r' \<in> set (pg_rows tb) \<and> cell_eq 1 (VText '''') r' \<and>
                  fst (GetByCode s None '''' w) = decode_row r')) \<and>
         (cell_eq 2 (VText '''') r \<longrightarrow>
            fst (GetByAccess s None '''' w) \<noteq> Inl ErrNoRows \<and>
            (\<exists>r'. r' \<in> set (pg_rows tb) \<and> cell_eq 2 (VText '''') r' \<and>
                  fst (GetByAccess s None '''' w) = decode_row r')) \<and>
         (cell_eq 3 (VText '''') r \<longrightarrow>
            fst (GetByRefresh s None '''' w) \<noteq> Inl ErrNoRows \<and>
            (\<exists>r'. r' \<in> set (pg_rows tb) \<and> cell_eq 3 (VText '''') r' \<and>
                  fst (GetByRefresh s None '''' w) = decode_row r'))"
  unfolding lookup_rows [OF assms(1,2)]
  using first_row_some [OF assms(3), of "cell_eq 1 (VText '''')"]
    first_row_some [OF assms(3), of "cell_eq 2 (VText '''')"]
    first_row_some [OF assms(3), of "cell_eq 3 (VText '''')"] decode_row_found
  by metis

subsection \<open>The example database\<close>

lemma example_table: "table example_store = ''oauth2_tokens''"
  by (simp add: example_store_def new_TokenStore_def DefaultTokenStoreTable_def)

lemma ready_table:
  "pg_tables (db ready_world) (table example_store) =
     Some \<lparr>pg_columns = token_columns, pg_rows = [], pg_serial = 1\<rparr>"
proof -
  have "pg_tables (db empty_world) (table example_store) = None"
    by (simp add: empty_world_def)
  from init_script_fresh [OF this] obtain d' where
    "run_script (db empty_world) (token_table_script (table example_store)) = Inr (d', [])"
    "pg_tables d' = (pg_tables (db empty_world))(table example_store \<mapsto>
       \<lparr>pg_columns = token_columns, pg_rows = [], pg_serial = 1\<rparr>)"
    by blast
  then show ?thesis
    by (simp add: ready_world_def TokenStore_InitTable_def pool_Exec_def Let_def world_Log)
qed

lemma Create_succeeds:
  assumes "pg_tables (db w) (table s) = Some tb" and "pg_columns tb = token_columns"
    and "- (2 ^ 63) \<le> pg_serial tb \<and> pg_serial tb < 2 ^ 63"
    and "\<not> list_ex (cell_eq 0 (VInt (pg_serial tb))) (pg_rows tb)"
    and "json_Marshal_Token lib info = Inr data"
  shows "fst (TokenStore_Create lib s now None info w) = None"
proof -
  have "\<not> pk_clash token_columns (pg_rows tb) (VInt (pg_serial tb) # rest)" for rest
    using assms(4)
    by (auto simp add: pk_clash_def list_ex_iff token_columns_def nth_Cons' split: if_splits)
  with assms(3) have "\<exists>d. run (db w) (Create_insert (table s) item) = Inr (d, [])" for item
    by (simp add: run_insert_token [OF assms(1,2)])
  then obtain d where
    "run (db w) (Create_insert (table s) (Create_item now data info)) = Inr (d, [])"
    by blast
  then show ?thesis
    by (simp add: TokenStore_Create_def assms(5) Let_def pool_Exec_def world_Log
        del: run.simps)
qed

lemma Create_on_ready:
  "json_Marshal_Token lib info = Inr data \<Longrightarrow>
   fst (TokenStore_Create lib example_store now None info ready_world) = None"
  by (rule Create_succeeds [OF ready_table]) simp_all

lemma lookup_on_ready:
  "fst (GetByCode example_store None k ready_world) = Inl ErrNoRows"
  "fst (GetByAccess example_store None k ready_world) = Inl ErrNoRows"
  "fst (GetByRefresh example_store None k ready_world) = Inl ErrNoRows"
  by (simp_all add: lookup_rows [OF ready_table] first_row_def and_then_def)

lemma Create_collapse:
  "fst (TokenStore_Create lib s now fault info w) = None \<Longrightarrow>
   TokenStore_Create lib s now fault info w =
     (None, snd (TokenStore_Create lib s now fault info w))"
  by (simp add: prod_eq_iff)

text \<open>
  The example tokens are in plain ASCII and their times are in range: the library keeps
  them as they are, and marshalling them succeeds.
\<close>

lemma ascii_kept: "list_all (\<lambda>c. (of_char c :: nat) < 128) s \<Longrightarrow> to_valid_utf8 s = s"
  by (induction s) simp_all

lemma examples_exact:
  "json_exact utc_lib example_code_token"
  "json_exact utc_lib example_access_token"
  "json_exact utc_lib example_pair_token"
  by (simp_all add: json_exact_def utc_lib_def year_0_def year_10000_def
      example_code_token_def example_access_token_def example_pair_token_def
      zero_Token_def zero_time_def)

lemma exact_marshals:
  "json_exact lib info \<Longrightarrow>
   json_Marshal_Token lib info = Inr (projr (json_Marshal_Token lib info))"
  by (simp add: json_exact_def json_Marshal_Token_def and_then_def)

text \<open>
  The byte FF is not UTF-8 and goes into the document as U+FFFD, which is UTF-8.
\<close>

lemma binary_coerced:
  "to_valid_utf8 [CHR 0xFF] = [CHR 0xEF, CHR 0xBF, CHR 0xBD]"
  "to_valid_utf8 [CHR 0xEF, CHR 0xBF, CHR 0xBD] = [CHR 0xEF, CHR 0xBF, CHR 0xBD]"
  by (simp_all add: cont_def)

lemma binary_marshal:
  "json_Marshal_Token utc_lib example_binary_token =
     json_Marshal_Token utc_lib
       (example_binary_token\<lparr>GetUserID := [CHR 0xEF, CHR 0xBF, CHR 0xBD]\<rparr>)"
  "json_exact utc_lib (example_binary_token\<lparr>GetUserID := [CHR 0xEF, CHR 0xBF, CHR 0xBD]\<rparr>)"
  "\<not> json_exact utc_lib example_binary_token"
  by (simp_all add: json_Marshal_Token_def json_exact_def utc_lib_def year_0_def
      year_10000_def example_binary_token_def example_code_token_def zero_Token_def
      zero_time_def binary_coerced ascii_kept del: to_valid_utf8.simps)

theorem lookup_after_create_witness:
  "has_token_table example_store ready_world \<and>
   json_exact utc_lib example_code_token \<and>
   TokenStore_Create utc_lib example_store 5000 None example_code_token ready_world =
     (None,
      snd (TokenStore_Create utc_lib example_store 5000 None example_code_token ready_world)) \<and>
   GetCode example_code_token \<noteq> '''' \<and>
   fst (GetByCode example_store None (GetCode example_code_token) ready_world) = Inl ErrNoRows \<and>
   fst (GetByCode example_store None (GetCode example_code_token)
          (snd (TokenStore_Create utc_lib example_store 5000 None example_code_token
                  ready_world)))
     = Inr example_code_token \<and>
   json_exact utc_lib example_access_token \<and>
   TokenStore_Create utc_lib example_store 5000 None example_access_token ready_world =
     (None,
      snd (TokenStore_Create utc_lib example_store 5000 None example_access_token ready_world)) \<and>
   GetCode example_access_token = '''' \<and> GetAccess example_access_token \<noteq> '''' \<and>
   fst (GetByAccess example_store None (GetAccess example_access_token) ready_world)
     = Inl ErrNoRows \<and>
   fst (GetByAccess example_store None (GetAccess example_access_token)
          (snd (TokenStore_Create utc_lib example_store 5000 None example_access_token
                  ready_world)))
     = Inr example_access_token \<and>
   json_exact utc_lib example_pair_token \<and>
   TokenStore_Create utc_lib example_store 5000 None example_pair_token ready_world =
     (None,
      snd (TokenStore_Create utc_lib example_store 5000 None example_pair_token ready_world)) \<and>
   GetCode example_pair_token = '''' \<and> GetRefresh example_pair_token \<noteq> '''' \<and>
   fst (GetByRefresh example_store None (GetRefresh example_pair_token) ready_world)
     = Inl ErrNoRows \<and>
   fst (GetByRefresh example_store None (GetRefresh example_pair_token)
          (snd (TokenStore_Create utc_lib example_store 5000 None example_pair_token
                  ready_world)))
     = Inr example_pair_token"
proof -
  have c: "GetCode example_code_token \<noteq> ''''"
    by (simp add: example_code_token_def zero_Token_def)
  have a: "GetCode example_access_token = ''''" "GetAccess example_access_token \<noteq> ''''"
    by (simp_all add: example_access_token_def zero_Token_def)
  have p: "GetCode example_pair_token = ''''" "GetRefresh example_pair_token \<noteq> ''''"
    by (simp_all add: example_pair_token_def zero_Token_def)
  note created =
    Create_collapse [OF Create_on_ready [OF exact_marshals [OF examples_exact(1)], of 5000]]
    Create_collapse [OF Create_on_ready [OF exact_marshals [OF examples_exact(2)], of 5000]]
    Create_collapse [OF Create_on_ready [OF exact_marshals [OF examples_exact(3)], of 5000]]
  show ?thesis
    using lookup_after_create [OF example_ready created(1) examples_exact(1)]
      lookup_after_create [OF example_ready created(2) examples_exact(2)]
      lookup_after_create [OF example_ready created(3) examples_exact(3)]
      example_ready created examples_exact lookup_on_ready c a p
    by simp
qed

text \<open>
  A token that carries a code is stored under its code alone: the lookup by its access
  token finds no row. And a token with a string that is not UTF-8 does not come back as it
  was: the lookup by its code returns it with U+FFFD in the place of the byte.
\<close>

theorem lookup_after_create_counterexample:
  "json_exact utc_lib example_code_token \<and>
   fst (TokenStore_Create utc_lib example_store 5000 None example_code_token ready_world)
     = None \<and>
   GetAccess example_code_token = ''acc'' \<and>
   fst (GetByAccess example_store None ''acc''
          (snd (TokenStore_Create utc_lib example_store 5000 None example_code_token
                  ready_world)))
     = Inl ErrNoRows \<and>
   fst (TokenStore_Create utc_lib example_store 5000 None example_binary_token ready_world)
     = None \<and>
   GetCode example_binary_token = ''abc'' \<and>
   fst (GetByCode example_store None ''abc'' ready_world) = Inl ErrNoRows \<and>
   fst (GetByCode example_store None ''abc''
          (snd (TokenStore_Create utc_lib example_store 5000 None example_binary_token
                  ready_world)))
     = Inr (example_binary_token\<lparr>GetUserID := [CHR 0xEF, CHR 0xBF, CHR 0xBD]\<rparr>) \<and>
   example_binary_token\<lparr>GetUserID := [CHR 0xEF, CHR 0xBF, CHR 0xBD]\<rparr> \<noteq> example_binary_token"
proof -
  let ?w1 = "snd (TokenStore_Create utc_lib example_store 5000 None example_code_token
                    ready_world)"
  let ?w2 = "snd (TokenStore_Create utc_lib example_store 5000 None example_binary_token
                    ready_world)"
  let ?returned = "example_binary_token\<lparr>GetUserID := [CHR 0xEF, CHR 0xBF, CHR 0xBD]\<rparr>"
  let ?data = "projr (json_Marshal_Token utc_lib example_code_token)"
  let ?data2 = "projr (json_Marshal_Token utc_lib ?returned)"
  note m = exact_marshals [OF examples_exact(1)]
  have m2: "json_Marshal_Token utc_lib example_binary_token = Inr ?data2"
    unfolding binary_marshal(1) by (rule exact_marshals [OF binary_marshal(2)])
  have m2': "json_Marshal_Token utc_lib ?returned = Inr ?data2"
    by (rule exact_marshals [OF binary_marshal(2)])
  have code: "GetCode example_code_token \<noteq> ''''" "GetCode example_code_token = ''abc''"
    "GetAccess example_code_token = ''acc''"
    "GetCode example_binary_token \<noteq> ''''" "GetCode example_binary_token = ''abc''"
    by (simp_all add: example_code_token_def example_binary_token_def zero_Token_def)
  let ?row1 = "[VInt 1, VText ''abc'', VText '''', VText '''', VJson ?data, VTime 5000,
                VTime (ExpiresAt (Create_item 5000 ?data example_code_token))]"
  let ?row2 = "[VInt 1, VText ''abc'', VText '''', VText '''', VJson ?data2, VTime 5000,
                VTime (ExpiresAt (Create_item 5000 ?data2 example_binary_token))]"
  have first:
    "fst (TokenStore_Create utc_lib example_store 5000 None example_code_token ready_world)
      = None"
    by (rule Create_on_ready [OF m])
  from Create_stores(1) [OF ready_table _ Create_collapse [OF first] m]
  have tb1: "pg_tables (db ?w1) (table example_store) =
               Some \<lparr>pg_columns = token_columns, pg_rows = [?row1], pg_serial = 2\<rparr>"
    by (simp add: Create_item_keys code)
  have by_access: "fst (GetByAccess example_store None ''acc'' ?w1) = Inl ErrNoRows"
    by (simp add: lookup_rows(2) [OF tb1] cell_eq_def first_row_def and_then_def)
  have second:
    "fst (TokenStore_Create utc_lib example_store 5000 None example_binary_token ready_world)
      = None"
    by (rule Create_on_ready [OF m2])
  from Create_stores(1) [OF ready_table _ Create_collapse [OF second] m2]
  have tb2: "pg_tables (db ?w2) (table example_store) =
               Some \<lparr>pg_columns = token_columns, pg_rows = [?row2], pg_serial = 2\<rparr>"
    by (simp add: Create_item_keys code)
  have "decode_row ?row2 = Inr ?returned"
    by (rule decode_created_row [OF m2' binary_marshal(2)]) simp
  then have by_code: "fst (GetByCode example_store None ''abc'' ?w2) = Inr ?returned"
    by (simp add: lookup_rows(1) [OF tb2] cell_eq_def first_row_def and_then_def)
  have differ: "?returned \<noteq> example_binary_token"
  proof
    assume "?returned = example_binary_token"
    then have "GetUserID ?returned = GetUserID example_binary_token" by simp
    then show False
      by (simp add: example_binary_token_def)
  qed
  from examples_exact(1) first code(3) by_access second code(5) lookup_on_ready(1) by_code
    differ
  show ?thesis by simp
qed

theorem lookup_by_empty_key_witness:
  "pg_tables (db (snd (TokenStore_Create utc_lib example_store 5000 None example_pair_token
                         ready_world)))
     (table example_store) =
     Some \<lparr>pg_columns = token_columns,
            pg_rows = [[VInt 1, VText '''', VText ''acc'', VText ''ref'',
                        VJson (projr (json_Marshal_Token utc_lib example_pair_token)),
                        VTime 5000, VTime 3240]],
            pg_serial = 2\<rparr> \<and>
   cell_eq 1 (VText '''')
     [VInt 1, VText '''', VText ''acc'', VText ''ref'',
      VJson (projr (json_Marshal_Token utc_lib example_pair_token)), VTime 5000, VTime 3240] \<and>
   fst (GetByCode example_store None ''''
          (snd (TokenStore_Create utc_lib example_store 5000 None example_pair_token
                  ready_world)))
     \<noteq> Inl ErrNoRows \<and>
   fst (GetByCode example_store None ''''
          (snd (TokenStore_Create utc_lib example_store 5000 None example_pair_token
                  ready_world)))
     = Inr example_pair_token \<and>
   fst (GetByAccess example_store None ''''
          (snd (TokenStore_Create utc_lib example_store 5000 None example_code_token
                  ready_world)))
     = Inr example_code_token \<and>
   fst (GetByRefresh example_store None ''''
          (snd (TokenStore_Create utc_lib example_store 5000 None example_code_token
                  ready_world)))
     = Inr example_code_token"
proof -
  let ?w1 = "snd (TokenStore_Create utc_lib example_store 5000 None example_pair_token
                    ready_world)"
  let ?data = "projr (json_Marshal_Token utc_lib example_pair_token)"
  let ?row = "[VInt 1, VText '''', VText ''acc'', VText ''ref'', VJson ?data, VTime 5000,
               VTime 3240]"
  let ?tb = "\<lparr>pg_columns = token_columns, pg_rows = [?row], pg_serial = 2\<rparr>"
  note m = exact_marshals [OF examples_exact(3)]
  have keys: "GetCode example_pair_token = ''''" "GetAccess example_pair_token = ''acc''"
    "GetRefresh example_pair_token = ''ref''"
    "ExpiresAt (Create_item 5000 ?data example_pair_token) = 3240"
    by (simp_all add: example_pair_token_def zero_Token_def Create_item_def Let_def Add_def)
  from Create_stores(1) [OF ready_table _ Create_collapse [OF Create_on_ready [OF m]] m]
  have tb: "pg_tables (db ?w1) (table example_store) = Some ?tb"
    by (simp add: Create_item_keys keys)
  have cols: "pg_columns ?tb = token_columns" by simp
  have mem: "?row \<in> set (pg_rows ?tb)" by simp
  have cell: "cell_eq 1 (VText '''') ?row" by (simp add: cell_eq_def)
  have only: "r' \<in> set (pg_rows ?tb) \<Longrightarrow> r' = ?row" for r' by simp
  have dec: "decode_row ?row = Inr example_pair_token"
    by (rule decode_created_row [OF m examples_exact(3)]) simp
  from lookup_by_empty_key_matches [OF tb cols mem] cell only dec
  have pair: "fst (GetByCode example_store None '''' ?w1) \<noteq> Inl ErrNoRows"
    "fst (GetByCode example_store None '''' ?w1) = Inr example_pair_token"
    by metis+
  let ?w2 = "snd (TokenStore_Create utc_lib example_store 5000 None example_code_token
                    ready_world)"
  let ?data2 = "projr (json_Marshal_Token utc_lib example_code_token)"
  let ?row2 = "[VInt 1, VText ''abc'', VText '''', VText '''', VJson ?data2, VTime 5000,
                VTime 1060]"
  let ?tb2 = "\<lparr>pg_columns = token_columns, pg_rows = [?row2], pg_serial = 2\<rparr>"
  note m2 = exact_marshals [OF examples_exact(1)]
  have keys2: "GetCode example_code_token \<noteq> ''''" "GetCode example_code_token = ''abc''"
    "ExpiresAt (Create_item 5000 ?data2 example_code_token) = 1060"
    by (simp_all add: example_code_token_def zero_Token_def Create_item_def Let_def Add_def)
  from Create_stores(1) [OF ready_table _ Create_collapse [OF Create_on_ready [OF m2]] m2]
  have tb2: "pg_tables (db ?w2) (table example_store) = Some ?tb2"
    by (simp add: Create_item_keys keys2)
  have cols2: "pg_columns ?tb2 = token_columns" by simp
  have mem2: "?row2 \<in> set (pg_rows ?tb2)" by simp
  have cell2: "cell_eq 2 (VText '''') ?row2" "cell_eq 3 (VText '''') ?row2"
    by (simp_all add: cell_eq_def)
  have only2: "r' \<in> set (pg_rows ?tb2) \<Longrightarrow> r' = ?row2" for r' by simp
  have dec2: "decode_row ?row2 = Inr example_code_token"
    by (rule decode_created_row [OF m2 examples_exact(1)]) simp
  from lookup_by_empty_key_matches [OF tb2 cols2 mem2] cell2 only2 dec2
  have code: "fst (GetByAccess example_store None '''' ?w2) = Inr example_code_token"
    "fst (GetByRefresh example_store None '''' ?w2) = Inr example_code_token"
    by metis+
  from tb cell pair code show ?thesis by simp
qed

end
